theory Spec2Isabelle
  imports
    Complex_Main
    "HOL-Library.Char_ord"
    "HOL-Library.List_Lexorder"
    "HOL-Library.Option_ord"
    "HOL-Library.Product_Lexorder"
    "HOL-Library.Multiset"
begin

section \<open>The messages table (app/models.py)\<close>

text \<open>
  A Python \<^verbatim>\<open>str\<close> and an SQLite \<^verbatim>\<open>TEXT\<close> value are modelled as \<^typ>\<open>string\<close>, the list of
  the bytes of the UTF-8 encoding; Python's \<^verbatim>\<open>None\<close> and SQL's \<^verbatim>\<open>NULL\<close> as \<^const>\<open>None\<close>.
  The order on strings is the lexicographic order on these bytes, which is how SQLite's
  default \<^verbatim>\<open>BINARY\<close> collation compares text.

  \<^verbatim>\<open>CREATE_MESSAGES_SQL\<close> declares six columns. \<^verbatim>\<open>from_msisdn\<close>, \<^verbatim>\<open>to_msisdn\<close>, \<^verbatim>\<open>ts\<close>
  and \<^verbatim>\<open>created_at\<close> are \<^verbatim>\<open>NOT NULL\<close>, so a stored row holds a string there. \<^verbatim>\<open>text\<close>
  (the field \<open>msg_text\<close>, as \<open>text\<close> is a keyword here) is nullable. \<^verbatim>\<open>message_id\<close> is \<^verbatim>\<open>TEXT PRIMARY KEY\<close> without \<^verbatim>\<open>NOT NULL\<close>: SQLite keeps
  such a column unique among its non-NULL values and accepts NULL in it, so the stored
  value is optional as well.
\<close>

record row =
  message_id :: "string option"
  from_msisdn :: string
  to_msisdn :: string
  ts :: string
  msg_text :: "string option"
  created_at :: string

text \<open>
  What \<^verbatim>\<open>aiosqlite\<close> raises: \<^verbatim>\<open>IntegrityError\<close> for a violated constraint, and
  \<^verbatim>\<open>OperationalError\<close> for everything that keeps the statement from running (no such
  table, database locked, file not readable). Both carry SQLite's message.
\<close>

datatype db_error = IntegrityError string | OperationalError string

text \<open>
  The database file as one call sees it: either the statement cannot run and the driver
  raises \<^verbatim>\<open>OperationalError\<close> with the given message, or the table \<^verbatim>\<open>messages\<close> is there
  with its rows in storage order.
\<close>

datatype database = Failing string | Ready "row list"

text \<open>
  \<^verbatim>\<open>INSERT INTO messages (...) VALUES (?, ?, ?, ?, ?, ?)\<close> against the schema: the
  \<^verbatim>\<open>NOT NULL\<close> columns are checked in column order, then the uniqueness of the key.
\<close>

definition execute_insert ::
  "row list \<Rightarrow> string option \<Rightarrow> string option \<Rightarrow> string option \<Rightarrow> string option
     \<Rightarrow> string option \<Rightarrow> string option \<Rightarrow> db_error + row list" where
  "execute_insert rows mid frm to t tx ca =
     (case frm of
        None \<Rightarrow> Inl (IntegrityError ''NOT NULL constraint failed: messages.from_msisdn'')
      | Some frm' \<Rightarrow>
     (case to of
        None \<Rightarrow> Inl (IntegrityError ''NOT NULL constraint failed: messages.to_msisdn'')
      | Some to' \<Rightarrow>
     (case t of
        None \<Rightarrow> Inl (IntegrityError ''NOT NULL constraint failed: messages.ts'')
      | Some t' \<Rightarrow>
     (case ca of
        None \<Rightarrow> Inl (IntegrityError ''NOT NULL constraint failed: messages.created_at'')
      | Some ca' \<Rightarrow>
        if mid \<noteq> None \<and> mid \<in> set (map message_id rows)
        then Inl (IntegrityError ''UNIQUE constraint failed: messages.message_id'')
        else Inr (rows @ [\<lparr>message_id = mid, from_msisdn = frm', to_msisdn = to', ts = t',
                            msg_text = tx, created_at = ca'\<rparr>])))))"

text \<open>Connecting, executing the insert and committing, on the database as a whole.\<close>

definition db_insert ::
  "database \<Rightarrow> string option \<Rightarrow> string option \<Rightarrow> string option \<Rightarrow> string option
     \<Rightarrow> string option \<Rightarrow> string option \<Rightarrow> db_error + database" where
  "db_insert db mid frm to t tx ca =
     (case db of
        Failing msg \<Rightarrow> Inl (OperationalError msg)
      | Ready rows \<Rightarrow>
          (case execute_insert rows mid frm to t tx ca of
             Inl e \<Rightarrow> Inl e
           | Inr rows' \<Rightarrow> Inr (Ready rows')))"

section \<open>Storage (app/storage.py)\<close>

subsection \<open>insert\_message\<close>

text \<open>
  \<^verbatim>\<open>Storage.insert_message\<close>: the \<^verbatim>\<open>try\<close> block runs the insert and returns
  \<^verbatim>\<open>"created"\<close>; \<^verbatim>\<open>except aiosqlite.IntegrityError\<close> returns \<^verbatim>\<open>"duplicate"\<close>; any other
  exception leaves the function (\<^const>\<open>Inl\<close>). The database after the call is returned
  with the result.
\<close>

definition insert_message ::
  "database \<Rightarrow> string option \<Rightarrow> string option \<Rightarrow> string option \<Rightarrow> string option
     \<Rightarrow> string option \<Rightarrow> string option \<Rightarrow> db_error + (string \<times> database)" where
  "insert_message db mid frm to t tx ca =
     (case db_insert db mid frm to t tx ca of
        Inr db' \<Rightarrow> Inr (''created'', db')
      | Inl (IntegrityError msg) \<Rightarrow> Inr (''duplicate'', db)
      | Inl (OperationalError msg) \<Rightarrow> Inl (OperationalError msg))"

subsection \<open>Python helpers used by list\_messages\<close>

text \<open>
  The truth value of an optional string in a condition (\<^verbatim>\<open>if from_filter:\<close>): \<^verbatim>\<open>None\<close>
  and the empty string are false.
\<close>

definition truthy :: "string option \<Rightarrow> bool" where
  "truthy v = (case v of None \<Rightarrow> False | Some s \<Rightarrow> s \<noteq> [])"

text \<open>\<^verbatim>\<open>x or ""\<close> for an optional string \<open>x\<close>.\<close>

definition or_empty :: "string option \<Rightarrow> string" where
  "or_empty v = (case v of None \<Rightarrow> [] | Some s \<Rightarrow> if s = [] then [] else s)"

text \<open>
  \<^verbatim>\<open>str.lower()\<close> belongs to the Python library, not to this repository: it lowers
  every cased letter of Unicode and depends on the context of a letter (a capital sigma
  at the end of a word becomes the final sigma, elsewhere the small sigma). It is the
  parameter \<open>str_lower\<close> of \<^verbatim>\<open>list_messages\<close> below. In the UTF-8 encoding an ASCII
  character is one byte and every other character a block of bytes from 128 up, so
  one string occurs in another as a block of characters exactly when its bytes do.
\<close>

text \<open>\<^verbatim>\<open>a in b\<close> on strings: \<open>a\<close> occurs in \<open>b\<close> as a contiguous block.\<close>

fun py_in :: "string \<Rightarrow> string \<Rightarrow> bool" where
  "py_in a [] = (a = [])"
| "py_in a (c # cs) = (take (length a) (c # cs) = a \<or> py_in a cs)"

text \<open>
  \<^verbatim>\<open>xs[start:stop]\<close>: a negative index counts from the end, and both indices are
  clamped to the list.
\<close>

definition slice_index :: "int \<Rightarrow> int \<Rightarrow> int" where
  "slice_index i n = (if i < 0 then max (i + n) 0 else min i n)"

definition py_slice :: "'a list \<Rightarrow> int \<Rightarrow> int \<Rightarrow> 'a list" where
  "py_slice xs start stop =
     (let n = int (length xs); a = slice_index start n; b = slice_index stop n
      in take (nat (b - a)) (drop (nat a) xs))"

subsection \<open>list\_messages\<close>

text \<open>
  A row of the result: \<^verbatim>\<open>dict(r)\<close> with the keys \<^verbatim>\<open>message_id\<close>, \<^verbatim>\<open>from\<close>, \<^verbatim>\<open>to\<close>,
  \<^verbatim>\<open>ts\<close> and \<^verbatim>\<open>text\<close> of the \<^verbatim>\<open>SELECT\<close> (\<^verbatim>\<open>created_at\<close> is not selected).
\<close>

record message_dict =
  d_message_id :: "string option"
  d_from :: string
  d_to :: string
  d_ts :: string
  d_text :: "string option"

definition select_columns :: "row \<Rightarrow> message_dict" where
  "select_columns r =
     \<lparr>d_message_id = message_id r, d_from = from_msisdn r, d_to = to_msisdn r,
      d_ts = ts r, d_text = msg_text r\<rparr>"

text \<open>
  The \<^verbatim>\<open>WHERE\<close> clause built from \<^verbatim>\<open>from_filter\<close> and \<^verbatim>\<open>since\<close>: each condition is
  appended only when its argument is truthy, and the conditions are joined by
  \<^verbatim>\<open>AND\<close>.
\<close>

definition where_sql :: "string option \<Rightarrow> string option \<Rightarrow> row \<Rightarrow> bool" where
  "where_sql from_filter since r =
     ((if truthy from_filter then Some (from_msisdn r) = from_filter else True) \<and>
      (if truthy since then Some (ts r) \<ge> since else True))"

text \<open>\<^verbatim>\<open>ORDER BY ts ASC, message_id ASC\<close>; NULL sorts before every text value.\<close>

definition order_key :: "row \<Rightarrow> string \<times> string option" where
  "order_key r = (ts r, message_id r)"

definition base_select :: "row list \<Rightarrow> string option \<Rightarrow> string option \<Rightarrow> message_dict list" where
  "base_select rows from_filter since =
     map select_columns (sort_key order_key (filter (where_sql from_filter since) rows))"

text \<open>The Python-side search: applied only when \<^verbatim>\<open>q\<close> is truthy.\<close>

definition q_filter ::
  "(string \<Rightarrow> string) \<Rightarrow> string option \<Rightarrow> message_dict list \<Rightarrow> message_dict list" where
  "q_filter str_lower q ds =
     (case q of
        None \<Rightarrow> ds
      | Some s \<Rightarrow>
          if s = [] then ds
          else (let q_lower = str_lower s
                in filter (\<lambda>d. py_in q_lower (str_lower (or_empty (d_text d)))) ds))"

definition list_messages ::
  "(string \<Rightarrow> string) \<Rightarrow> database \<Rightarrow> int \<Rightarrow> int
     \<Rightarrow> string option \<Rightarrow> string option \<Rightarrow> string option
     \<Rightarrow> db_error + (message_dict list \<times> int)" where
  "list_messages str_lower db limit offset from_filter since q =
     (case db of
        Failing msg \<Rightarrow> Inl (OperationalError msg)
      | Ready rows \<Rightarrow>
          (let found = q_filter str_lower q (base_select rows from_filter since);
               total = int (length found);
               data = py_slice found offset (offset + limit)
           in Inr (data, total)))"

subsection \<open>stats\<close>

text \<open>
  \<^verbatim>\<open>SELECT from_msisdn, COUNT(*) AS c FROM messages GROUP BY from_msisdn\<close>: one pair for
  each sender of the table, with the number of its rows.
\<close>

definition group_by_sender :: "row list \<Rightarrow> (string \<times> nat) list" where
  "group_by_sender rows =
     map (\<lambda>s. (s, length (filter (\<lambda>r. from_msisdn r = s) rows)))
       (remdups (map from_msisdn rows))"

text \<open>
  \<^verbatim>\<open>ORDER BY c DESC LIMIT n\<close>. The query names the count as its only sort key, so SQL
  fixes the order of two groups only when their counts differ: the engine may return
  the first \<open>n\<close> entries of any arrangement of the groups in which the counts descend.
\<close>

inductive order_by_c_desc_limit ::
  "(string \<times> nat) list \<Rightarrow> nat \<Rightarrow> (string \<times> nat) list \<Rightarrow> bool" where
  "mset arranged = mset groups \<Longrightarrow> sorted_wrt (\<lambda>a b. snd b \<le> snd a) arranged
     \<Longrightarrow> order_by_c_desc_limit groups n (take n arranged)"

text \<open>\<^verbatim>\<open>SELECT MIN(ts), MAX(ts) FROM messages\<close>: NULL on the empty table.\<close>

definition min_ts :: "row list \<Rightarrow> string option" where
  "min_ts rows = (case map ts rows of [] \<Rightarrow> None | t # rest \<Rightarrow> Some (fold min rest t))"

definition max_ts :: "row list \<Rightarrow> string option" where
  "max_ts rows = (case map ts rows of [] \<Rightarrow> None | t # rest \<Rightarrow> Some (fold max rest t))"

record stats_dict =
  total_messages :: nat
  senders_count :: nat
  messages_per_sender :: "(string \<times> nat) list"
  first_message_ts :: "string option"
  last_message_ts :: "string option"

text \<open>
  \<^verbatim>\<open>Storage.stats\<close>, as the relation between the database and what a call may return.
\<close>

inductive stats :: "database \<Rightarrow> db_error + stats_dict \<Rightarrow> bool" where
  stats_failing: "stats (Failing msg) (Inl (OperationalError msg))"
| stats_ready:
    "order_by_c_desc_limit (group_by_sender rows) 10 per_sender \<Longrightarrow>
     stats (Ready rows)
       (Inr \<lparr>total_messages = length rows,
             senders_count = length (remdups (map from_msisdn rows)),
             messages_per_sender = per_sender,
             first_message_ts = min_ts rows,
             last_message_ts = max_ts rows\<rparr>)"

section \<open>Metrics (app/metrics.py)\<close>

text \<open>
  A \<^verbatim>\<open>defaultdict(int)\<close> is the list of its items in insertion order, which is the
  order in which Python iterates over it. \<open>dd_inc\<close> is \<^verbatim>\<open>d[k] += 1\<close> and \<open>dd_get\<close> is
  \<^verbatim>\<open>d.get(k, 0)\<close>.
\<close>

fun dd_inc :: "'k \<Rightarrow> ('k \<times> nat) list \<Rightarrow> ('k \<times> nat) list" where
  "dd_inc k [] = [(k, 1)]"
| "dd_inc k ((k', v) # d) = (if k' = k then (k', v + 1) # d else (k', v) # dd_inc k d)"

definition dd_get :: "'k \<Rightarrow> ('k \<times> nat) list \<Rightarrow> nat" where
  "dd_get k d = (case map_of d k of None \<Rightarrow> 0 | Some v \<Rightarrow> v)"

record metrics =
  http_requests :: "((string \<times> string) \<times> nat) list"
  webhook_requests :: "(string \<times> nat) list"
  latency_buckets :: "(string \<times> nat) list"

definition Metrics :: metrics where
  "Metrics = \<lparr>http_requests = [], webhook_requests = [], latency_buckets = []\<rparr>"

text \<open>\<^verbatim>\<open>str(n)\<close> for an integer: decimal digits, with a sign when negative.\<close>

definition digit_char :: "nat \<Rightarrow> char" where
  "digit_char d = char_of (48 + d)"

fun str_nat :: "nat \<Rightarrow> string" where
  "str_nat n = (if n < 10 then [digit_char n] else str_nat (n div 10) @ [digit_char (n mod 10)])"

declare str_nat.simps [simp del]

definition str_int :: "int \<Rightarrow> string" where
  "str_int i = (if i < 0 then CHR ''-'' # str_nat (nat (- i)) else str_nat (nat i))"

definition inc_http :: "metrics \<Rightarrow> string \<Rightarrow> int \<Rightarrow> metrics" where
  "inc_http m path status =
     m\<lparr>http_requests := dd_inc (path, str_int status) (http_requests m)\<rparr>"

definition inc_webhook :: "metrics \<Rightarrow> string \<Rightarrow> metrics" where
  "inc_webhook m result = m\<lparr>webhook_requests := dd_inc result (webhook_requests m)\<rparr>"

text \<open>
  The latency is a Python \<^verbatim>\<open>float\<close>: a number, one of the two infinities, or NaN.
  \<open>float_le ms c\<close> is \<^verbatim>\<open>ms <= c\<close> for a constant \<open>c\<close>, which is false when \<open>ms\<close> is NaN.
\<close>

datatype py_float = Finite real | PosInf | NegInf | NaN

fun float_le :: "py_float \<Rightarrow> real \<Rightarrow> bool" where
  "float_le (Finite x) c = (x \<le> c)"
| "float_le NegInf c = True"
| "float_le PosInf c = False"
| "float_le NaN c = False"

definition observe_latency :: "metrics \<Rightarrow> py_float \<Rightarrow> metrics" where
  "observe_latency m ms =
     (if float_le ms 100 then m\<lparr>latency_buckets := dd_inc ''100'' (latency_buckets m)\<rparr>
      else if float_le ms 500 then m\<lparr>latency_buckets := dd_inc ''500'' (latency_buckets m)\<rparr>
      else m\<lparr>latency_buckets := dd_inc ''+Inf'' (latency_buckets m)\<rparr>)"

text \<open>The four latency lines of \<^verbatim>\<open>render_prometheus\<close>, and the whole text.\<close>

definition latency_lines :: "metrics \<Rightarrow> string list" where
  \<open>latency_lines m =
     (let count_100 = dd_get ''100'' (latency_buckets m);
          count_500 = dd_get ''500'' (latency_buckets m);
          count_inf = dd_get ''+Inf'' (latency_buckets m);
          total = count_100 + count_500 + count_inf
      in [''request_latency_ms_bucket{le="100"} '' @ str_nat count_100,
          ''request_latency_ms_bucket{le="500"} '' @ str_nat (count_100 + count_500),
          ''request_latency_ms_bucket{le="+Inf"} '' @ str_nat total,
          ''request_latency_ms_count '' @ str_nat total])\<close>

definition http_line :: "(string \<times> string) \<times> nat \<Rightarrow> string" where
  \<open>http_line item =
     (case item of ((path, status), v) \<Rightarrow>
        ''http_requests_total{path="'' @ path @ ''",status="'' @ status @ ''"} '' @ str_nat v)\<close>

definition webhook_line :: "string \<times> nat \<Rightarrow> string" where
  \<open>webhook_line item =
     (case item of (result, v) \<Rightarrow>
        ''webhook_requests_total{result="'' @ result @ ''"} '' @ str_nat v)\<close>

text \<open>\<^verbatim>\<open>"\n".join(lines) + "\n"\<close>.\<close>

fun join_lines :: "string list \<Rightarrow> string" where
  "join_lines [] = []"
| "join_lines [l] = l"
| "join_lines (l # ls) = l @ CHR 0x0A # join_lines ls"

definition render_prometheus :: "metrics \<Rightarrow> string" where
  "render_prometheus m =
     join_lines (map http_line (http_requests m) @ map webhook_line (webhook_requests m)
                 @ latency_lines m) @ [CHR 0x0A]"

section \<open>The webhook handler (app/main.py)\<close>

text \<open>
  \<^verbatim>\<open>s.replace(old, new)\<close>: every occurrence of \<open>old\<close> is replaced, from the left and
  without overlap; an empty \<open>old\<close> puts \<open>new\<close> before every character and at the end.
\<close>

function py_replace :: "string \<Rightarrow> string \<Rightarrow> string \<Rightarrow> string" where
  "py_replace old new s =
     (if old = [] then new @ concat (map (\<lambda>c. c # new) s)
      else if s = [] then []
      else if take (length old) s = old then new @ py_replace old new (drop (length old) s)
      else hd s # py_replace old new (tl s))"
  by pat_completeness auto
termination
  by (relation "measure (\<lambda>(old, new, s). length s)") auto

declare py_replace.simps [simp del]

text \<open>
  \<^verbatim>\<open>hmac.compare_digest\<close> on two \<^verbatim>\<open>str\<close> values: it raises \<^verbatim>\<open>TypeError\<close> unless both hold
  ASCII characters only, and compares them otherwise.
\<close>

datatype exn = TypeError | DatabaseError db_error

definition is_ascii :: "string \<Rightarrow> bool" where
  "is_ascii s = list_all (\<lambda>c. of_char c < (128::nat)) s"

definition compare_digest :: "string \<Rightarrow> string \<Rightarrow> exn + bool" where
  "compare_digest a b = (if is_ascii a \<and> is_ascii b then Inr (a = b) else Inl TypeError)"

text \<open>
  A validated \<^verbatim>\<open>WebhookMessage\<close>. \<open>w_ts\<close> is \<^verbatim>\<open>msg.ts.isoformat()\<close>, the text of the
  parsed \<^verbatim>\<open>datetime\<close>.
\<close>

record webhook_message =
  w_message_id :: string
  w_from :: string
  w_to :: string
  w_ts :: string
  w_text :: "string option"

text \<open>What the handler hands back to FastAPI: the JSON body, or an \<^verbatim>\<open>HTTPException\<close>.\<close>

datatype response = JSONResponse_ok | HTTPException int string

text \<open>
  \<^verbatim>\<open>webhook\<close>. The libraries and the environment it reads are parameters:
  \<^item> \<open>hmac_hexdigest secret raw\<close> is \<^verbatim>\<open>hmac.new(secret, raw, hashlib.sha256).hexdigest()\<close>;
  \<^item> \<open>parse_raw raw\<close> is \<^verbatim>\<open>WebhookMessage.parse_raw(raw)\<close>, with \<^const>\<open>Inl\<close> of the
    exception's text when it raises;
  \<^item> \<open>secret\<close> is \<^verbatim>\<open>settings.WEBHOOK_SECRET\<close>;
  \<^item> \<open>utcnow\<close> is \<^verbatim>\<open>datetime.utcnow().replace(tzinfo=timezone.utc).isoformat()\<close>.

  The state is the database \<^verbatim>\<open>DB\<close> and the global \<^verbatim>\<open>metrics\<close>; both are returned as
  the call leaves them, with the response, or with the exception that is neither caught
  nor an \<^verbatim>\<open>HTTPException\<close>.
\<close>

definition webhook ::
  "(string \<Rightarrow> string \<Rightarrow> string) \<Rightarrow> (string \<Rightarrow> string + webhook_message) \<Rightarrow> string \<Rightarrow> string
     \<Rightarrow> database \<Rightarrow> metrics \<Rightarrow> string \<Rightarrow> string option
     \<Rightarrow> (exn + response) \<times> database \<times> metrics" where
  "webhook hmac_hexdigest parse_raw secret utcnow db m raw x_signature =
     (case x_signature of
        None \<Rightarrow>
          (Inr (HTTPException 401 ''invalid signature''), db, inc_webhook m ''invalid_signature'')
      | Some sig \<Rightarrow>
          if sig = [] then
            (Inr (HTTPException 401 ''invalid signature''), db, inc_webhook m ''invalid_signature'')
          else
            (case compare_digest (hmac_hexdigest secret raw) sig of
               Inl e \<Rightarrow> (Inl e, db, m)
             | Inr False \<Rightarrow>
                 (Inr (HTTPException 401 ''invalid signature''), db,
                  inc_webhook m ''invalid_signature'')
             | Inr True \<Rightarrow>
                 (case parse_raw raw of
                    Inl detail \<Rightarrow>
                      (Inr (HTTPException 422 detail), db, inc_webhook m ''validation_error'')
                  | Inr msg \<Rightarrow>
                      (let created = py_replace ''+00:00'' ''Z'' utcnow in
                       case insert_message db
                              (Some (w_message_id msg)) (Some (w_from msg)) (Some (w_to msg))
                              (Some (py_replace ''+00:00'' ''Z'' (w_ts msg)))
                              (w_text msg) (Some created) of
                         Inl e \<Rightarrow> (Inl (DatabaseError e), db, m)
                       | Inr (result, db') \<Rightarrow>
                           (Inr JSONResponse_ok, db', inc_webhook m result)))))"

section \<open>Notions used in the statements\<close>

text \<open>
  A row passes the text query \<open>q\<close>: no test when \<open>q\<close> is \<^verbatim>\<open>None\<close> or empty, and otherwise
  the lowered query occurs in the lowered text, where a NULL text counts as empty.
\<close>

definition q_matches :: "(string \<Rightarrow> string) \<Rightarrow> string option \<Rightarrow> row \<Rightarrow> bool" where
  "q_matches str_lower q r =
     (case q of
        None \<Rightarrow> True
      | Some s \<Rightarrow> s = [] \<or> py_in (str_lower s) (str_lower (or_empty (msg_text r))))"

text \<open>A row passes all three filters of \<^verbatim>\<open>list_messages\<close>.\<close>

definition row_matches ::
  "(string \<Rightarrow> string) \<Rightarrow> string option \<Rightarrow> string option \<Rightarrow> string option \<Rightarrow> row \<Rightarrow> bool" where
  "row_matches str_lower from_filter since q r =
     (where_sql from_filter since r \<and> q_matches str_lower q r)"

text \<open>The sort key \<open>(ts, message_id)\<close>, read from a row of the result.\<close>

definition dict_key :: "message_dict \<Rightarrow> string \<times> string option" where
  "dict_key d = (d_ts d, d_message_id d)"

text \<open>
  \<^verbatim>\<open>str.lower()\<close> on a string of ASCII characters, where it lowers the letters \<open>A\<close> to
  \<open>Z\<close> and keeps the rest; the example table below holds ASCII text only.
\<close>

definition ascii_lower :: "string \<Rightarrow> string" where
  "ascii_lower s =
     map (\<lambda>c. if CHR ''A'' \<le> c \<and> c \<le> CHR ''Z'' then char_of (of_char c + (32::nat)) else c) s"

text \<open>
  The capital sigma (U+03A3), the small sigma (U+03C3) and the final sigma (U+03C2), as
  UTF-8 bytes, and a message whose text is \<^verbatim>\<open>ABC\<close> followed by a capital sigma.
\<close>

definition capital_sigma :: string where
  "capital_sigma = [CHR 0xCE, CHR 0xA3]"

definition small_sigma :: string where
  "small_sigma = [CHR 0xCF, CHR 0x83]"

definition final_sigma :: string where
  "final_sigma = [CHR 0xCF, CHR 0x82]"

definition row_sigma :: row where
  "row_sigma = \<lparr>message_id = Some ''m4'', from_msisdn = ''+919876543210'',
                to_msisdn = ''+14155550100'', ts = ''2025-01-15T11:00:00Z'',
                msg_text = Some (''ABC'' @ capital_sigma),
                created_at = ''2025-01-15T11:00:01Z''\<rparr>"

text \<open>
  \<^verbatim>\<open>str.lower()\<close> on these strings: a capital sigma alone becomes the small sigma, and at
  the end of the word \<^verbatim>\<open>ABC\<close> it becomes the final sigma; on ASCII text as above.
\<close>

definition sigma_lower :: "string \<Rightarrow> string" where
  "sigma_lower s =
     (if s = capital_sigma then small_sigma
      else if s = ''ABC'' @ capital_sigma then ''abc'' @ final_sigma
      else ascii_lower s)"

text \<open>
  A small table for the concrete instances below: the two messages of the repository's
  tests, and a third one with the timestamp of the first and no text.
\<close>

definition row_m1 :: row where
  "row_m1 = \<lparr>message_id = Some ''m1'', from_msisdn = ''+919876543210'',
             to_msisdn = ''+14155550100'', ts = ''2025-01-15T10:00:00Z'',
             msg_text = Some ''Hello'', created_at = ''2025-01-15T10:00:01Z''\<rparr>"

definition row_m2 :: row where
  "row_m2 = \<lparr>message_id = Some ''m2'', from_msisdn = ''+911234567890'',
             to_msisdn = ''+14155550100'', ts = ''2025-01-15T09:00:00Z'',
             msg_text = Some ''Earlier'', created_at = ''2025-01-15T10:00:02Z''\<rparr>"

definition row_m3 :: row where
  "row_m3 = \<lparr>message_id = Some ''m3'', from_msisdn = ''+919876543210'',
             to_msisdn = ''+14155550100'', ts = ''2025-01-15T10:00:00Z'',
             msg_text = None, created_at = ''2025-01-15T10:00:03Z''\<rparr>"

definition example_rows :: "row list" where
  "example_rows = [row_m3, row_m1, row_m2]"

text \<open>
  The bucket that the thresholds 100 and 500 assign to a latency: a number goes to the
  first bound that it does not exceed, or to \<^verbatim>\<open>+Inf\<close>; NaN is not a number and is put with
  \<^verbatim>\<open>+Inf\<close>.
\<close>

definition bucket_of :: "py_float \<Rightarrow> string" where
  "bucket_of ms =
     (case ms of
        Finite x \<Rightarrow> if x \<le> 100 then ''100'' else if x \<le> 500 then ''500'' else ''+Inf''
      | NegInf \<Rightarrow> ''100''
      | PosInf \<Rightarrow> ''+Inf''
      | NaN \<Rightarrow> ''+Inf'')"

text \<open>An observed latency is a number (or minus infinity) that is at most the bound.\<close>

definition at_most :: "real \<Rightarrow> py_float \<Rightarrow> bool" where
  "at_most bound ms =
     (case ms of Finite x \<Rightarrow> x \<le> bound | NegInf \<Rightarrow> True | PosInf \<Rightarrow> False | NaN \<Rightarrow> False)"

text \<open>
  The calls that the application makes on the collector, a sequence of such calls made
  in order on a fresh collector, and the latencies observed in such a sequence.
\<close>

datatype call = Inc_http string int | Inc_webhook string | Observe_latency py_float

fun apply_call :: "metrics \<Rightarrow> call \<Rightarrow> metrics" where
  "apply_call m (Inc_http path status) = inc_http m path status"
| "apply_call m (Inc_webhook result) = inc_webhook m result"
| "apply_call m (Observe_latency ms) = observe_latency m ms"

definition run_calls :: "call list \<Rightarrow> metrics" where
  "run_calls cs = foldl apply_call Metrics cs"

fun observations :: "call list \<Rightarrow> py_float list" where
  "observations [] = []"
| "observations (Observe_latency ms # cs) = ms # observations cs"
| "observations (c # cs) = observations cs"

text \<open>
  The string \<open>d\<close> is the decimal numeral of \<open>n\<close>: digits only, at least one, no leading
  zero except for \<open>0\<close> itself, and of value \<open>n\<close>.
\<close>

definition is_decimal :: "string \<Rightarrow> nat \<Rightarrow> bool" where
  "is_decimal d n =
     (d \<noteq> [] \<and> list_all (\<lambda>c. CHR ''0'' \<le> c \<and> c \<le> CHR ''9'') d \<and>
      (length d = 1 \<or> hd d \<noteq> CHR ''0'') \<and>
      foldl (\<lambda>a c. 10 * a + (of_char c - 48)) 0 d = n)"

text \<open>
  Twelve requests as the middleware records them (the latency, then the request with
  its status), three of them to the webhook, which records its outcome first.
\<close>

definition example_calls :: "call list" where
  "example_calls =
     concat (replicate 8 [Observe_latency (Finite 12), Inc_http ''/health/live'' 200]) @
     [Inc_webhook ''created'', Observe_latency (Finite 30), Inc_http ''/webhook'' 200,
      Inc_webhook ''duplicate'', Observe_latency (Finite 250), Inc_http ''/webhook'' 200,
      Inc_webhook ''invalid_signature'', Observe_latency (Finite 100), Inc_http ''/webhook'' 401,
      Observe_latency (Finite 700), Inc_http ''/messages'' 200]"

text \<open>The number of stored messages of a sender.\<close>

definition messages_from :: "row list \<Rightarrow> string \<Rightarrow> nat" where
  "messages_from rows sender = length (filter (\<lambda>r. from_msisdn r = sender) rows)"

text \<open>
  A list of senders with counts is ordered by count descending and, for equal counts, by
  sender ascending.
\<close>

definition count_desc_sender_asc :: "(string \<times> nat) list \<Rightarrow> bool" where
  "count_desc_sender_asc xs =
     sorted_wrt (\<lambda>a b. snd b < snd a \<or> (snd a = snd b \<and> fst a \<le> fst b)) xs"

text \<open>
  Stand-ins for the two library calls of the handler in concrete instances: a digest
  function that returns a fixed hexadecimal text, a parser that accepts every body as
  the message \<^verbatim>\<open>m1\<close> of the tests, and a parser that rejects every body.
\<close>

definition fixed_hexdigest :: "string \<Rightarrow> string \<Rightarrow> string" where
  "fixed_hexdigest secret raw = ''5f2b''"

definition example_message :: webhook_message where
  "example_message = \<lparr>w_message_id = ''m1'', w_from = ''+919876543210'',
                       w_to = ''+14155550100'', w_ts = ''2025-01-15T10:00:00+00:00'',
                       w_text = Some ''Hello''\<rparr>"

definition accept_all :: "string \<Rightarrow> string + webhook_message" where
  "accept_all raw = Inr example_message"

definition reject_all :: "string \<Rightarrow> string + webhook_message" where
  "reject_all raw = Inl ''field required''"

text \<open>The request body of the repository's webhook test.\<close>

definition example_body :: string where
  \<open>example_body =
     ''{"message_id": "m1", "from": "+919876543210", "to": "+14155550100", '' @
     ''"ts": "2025-01-15T10:00:00Z", "text": "Hello"}''\<close>

section \<open>Properties of insert\_message\<close>

lemma execute_insert_fresh:
  "Some k \<notin> set (map message_id rows) \<Longrightarrow>
   execute_insert rows (Some k) (Some frm) (Some to) (Some t) tx (Some ca) =
     Inr (rows @ [\<lparr>message_id = Some k, from_msisdn = frm, to_msisdn = to, ts = t,
                    msg_text = tx, created_at = ca\<rparr>])"
  by (simp add: execute_insert_def)

lemma execute_insert_present:
  "Some k \<in> set (map message_id rows) \<Longrightarrow>
   \<exists>msg. execute_insert rows (Some k) frm to t tx ca = Inl (IntegrityError msg)"
  by (simp add: execute_insert_def split: option.splits)

lemma execute_insert_error:
  "execute_insert rows mid frm to t tx ca = Inl e \<Longrightarrow> \<exists>msg. e = IntegrityError msg"
  by (auto simp add: execute_insert_def split: option.splits if_splits)

lemma insert_message_duplicate:
  "Some k \<in> set (map message_id rows) \<Longrightarrow>
   insert_message (Ready rows) (Some k) frm to t tx ca = Inr (''duplicate'', Ready rows)"
  using execute_insert_present [of k rows frm to t tx ca]
  by (auto simp add: insert_message_def db_insert_def)

text \<open>
  Claim C1. Inserting a validated message (every mandatory column given, the key \<open>k\<close>)
  whose \<^verbatim>\<open>message_id\<close> is not in the table returns \<^verbatim>\<open>"created"\<close> and appends exactly
  one row. Inserting any message with the same \<^verbatim>\<open>message_id\<close> afterwards returns
  \<^verbatim>\<open>"duplicate"\<close> and leaves the table as it was, whatever the other columns are. After
  the two calls exactly one row has that \<^verbatim>\<open>message_id\<close>.
\<close>

theorem insert_message_idempotent:
  "Some k \<notin> set (map message_id rows) \<Longrightarrow>
   (let new = \<lparr>message_id = Some k, from_msisdn = frm, to_msisdn = to, ts = t,
               msg_text = tx, created_at = ca\<rparr>;
        db1 = Ready (rows @ [new])
    in insert_message (Ready rows) (Some k) (Some frm) (Some to) (Some t) tx (Some ca)
         = Inr (''created'', db1)
     \<and> insert_message db1 (Some k) frm2 to2 t2 tx2 ca2 = Inr (''duplicate'', db1)
     \<and> length (rows @ [new]) = length rows + 1
     \<and> length (filter (\<lambda>r. message_id r = Some k) (rows @ [new])) = 1)"
proof -
  assume fresh: "Some k \<notin> set (map message_id rows)"
  define new where "new = \<lparr>message_id = Some k, from_msisdn = frm, to_msisdn = to, ts = t,
               msg_text = tx, created_at = ca\<rparr>"
  have first: "insert_message (Ready rows) (Some k) (Some frm) (Some to) (Some t) tx (Some ca)
         = Inr (''created'', Ready (rows @ [new]))"
    using fresh by (simp add: insert_message_def db_insert_def execute_insert_fresh new_def)
  have "Some k \<in> set (map message_id (rows @ [new]))"
    by (simp add: new_def)
  then have second: "insert_message (Ready (rows @ [new])) (Some k) frm2 to2 t2 tx2 ca2
         = Inr (''duplicate'', Ready (rows @ [new]))"
    by (rule insert_message_duplicate)
  have "filter (\<lambda>r. message_id r = Some k) rows = []"
    using fresh by (force simp add: filter_empty_conv)
  then have one: "length (filter (\<lambda>r. message_id r = Some k) (rows @ [new])) = 1"
    by (simp add: new_def)
  show ?thesis
    using first second one by (simp add: Let_def new_def)
qed

text \<open>The first and the second delivery of the message \<^verbatim>\<open>m1\<close> to the empty table.\<close>

theorem insert_message_idempotent_witness:
  "Some ''m1'' \<notin> set (map message_id []) \<and>
   insert_message (Ready []) (Some ''m1'') (Some ''+919876543210'') (Some ''+14155550100'')
       (Some ''2025-01-15T10:00:00Z'') (Some ''Hello'') (Some ''2025-01-15T10:00:01Z'')
     = Inr (''created'',
            Ready [\<lparr>message_id = Some ''m1'', from_msisdn = ''+919876543210'',
                    to_msisdn = ''+14155550100'', ts = ''2025-01-15T10:00:00Z'',
                    msg_text = Some ''Hello'', created_at = ''2025-01-15T10:00:01Z''\<rparr>]) \<and>
   insert_message
       (Ready [\<lparr>message_id = Some ''m1'', from_msisdn = ''+919876543210'',
                 to_msisdn = ''+14155550100'', ts = ''2025-01-15T10:00:00Z'',
                 msg_text = Some ''Hello'', created_at = ''2025-01-15T10:00:01Z''\<rparr>])
       (Some ''m1'') (Some ''+919876543210'') (Some ''+14155550100'')
       (Some ''2025-01-15T10:00:00Z'') (Some ''Hello'') (Some ''2025-01-15T10:00:07Z'')
     = Inr (''duplicate'',
            Ready [\<lparr>message_id = Some ''m1'', from_msisdn = ''+919876543210'',
                    to_msisdn = ''+14155550100'', ts = ''2025-01-15T10:00:00Z'',
                    msg_text = Some ''Hello'', created_at = ''2025-01-15T10:00:01Z''\<rparr>])"
  using insert_message_idempotent [of "''m1''" "[]" "''+919876543210''" "''+14155550100''"
      "''2025-01-15T10:00:00Z''" "Some ''Hello''" "''2025-01-15T10:00:01Z''"
      "Some ''+919876543210''" "Some ''+14155550100''" "Some ''2025-01-15T10:00:00Z''"
      "Some ''Hello''" "Some ''2025-01-15T10:00:07Z''"]
  by (simp add: Let_def)

text \<open>
  Claim C9. Whenever the backing store raises an integrity error for the insert,
  whichever constraint it is, \<^verbatim>\<open>insert_message\<close> returns \<^verbatim>\<open>"duplicate"\<close> and the database is
  as before. So \<^verbatim>\<open>insert_message\<close> never raises an integrity error, what it returns is
  \<^verbatim>\<open>"created"\<close> or \<^verbatim>\<open>"duplicate"\<close>, and on a table that is there it always returns. An
  error of the backing store that is not an integrity error reaches the caller as it
  is.
\<close>

theorem insert_message_integrity:
  "(db_insert db mid frm to t tx ca = Inl (IntegrityError msg) \<longrightarrow>
      insert_message db mid frm to t tx ca = Inr (''duplicate'', db)) \<and>
   insert_message db mid frm to t tx ca \<noteq> Inl (IntegrityError msg') \<and>
   (insert_message db mid frm to t tx ca = Inr (res, db') \<longrightarrow>
      res = ''created'' \<or> res = ''duplicate'') \<and>
   (\<exists>res db''. insert_message (Ready rows) mid frm to t tx ca = Inr (res, db'')) \<and>
   (db_insert db mid frm to t tx ca = Inl (OperationalError msg) \<longrightarrow>
      insert_message db mid frm to t tx ca = Inl (OperationalError msg))"
proof (intro conjI impI)
  show "insert_message db mid frm to t tx ca \<noteq> Inl (IntegrityError msg')"
    by (simp add: insert_message_def split: sum.splits db_error.splits)
next
  assume "insert_message db mid frm to t tx ca = Inr (res, db')"
  then show "res = ''created'' \<or> res = ''duplicate''"
    by (auto simp add: insert_message_def split: sum.splits db_error.splits)
next
  show "\<exists>res db''. insert_message (Ready rows) mid frm to t tx ca = Inr (res, db'')"
    using execute_insert_error [of rows mid frm to t tx ca]
    by (auto simp add: insert_message_def db_insert_def split: sum.splits db_error.splits)
qed (simp_all add: insert_message_def)

text \<open>
  A NULL sender violates \<^verbatim>\<open>NOT NULL\<close> and is reported as \<^verbatim>\<open>"duplicate"\<close>; a missing table
  is an \<^verbatim>\<open>OperationalError\<close> for the caller.
\<close>

theorem insert_message_integrity_witness:
  "db_insert (Ready []) (Some ''m1'') None (Some ''+14155550100'') (Some ''2025-01-15T10:00:00Z'')
       None (Some ''2025-01-15T10:00:01Z'')
     = Inl (IntegrityError ''NOT NULL constraint failed: messages.from_msisdn'') \<and>
   insert_message (Ready []) (Some ''m1'') None (Some ''+14155550100'')
       (Some ''2025-01-15T10:00:00Z'') None (Some ''2025-01-15T10:00:01Z'')
     = Inr (''duplicate'', Ready []) \<and>
   db_insert (Failing ''no such table: messages'') (Some ''m1'') (Some ''+919876543210'')
       (Some ''+14155550100'') (Some ''2025-01-15T10:00:00Z'') None (Some ''2025-01-15T10:00:01Z'')
     = Inl (OperationalError ''no such table: messages'') \<and>
   insert_message (Failing ''no such table: messages'') (Some ''m1'') (Some ''+919876543210'')
       (Some ''+14155550100'') (Some ''2025-01-15T10:00:00Z'') None (Some ''2025-01-15T10:00:01Z'')
     = Inl (OperationalError ''no such table: messages'')"
proof -
  have a: "db_insert (Ready []) (Some ''m1'') None (Some ''+14155550100'')
       (Some ''2025-01-15T10:00:00Z'') None (Some ''2025-01-15T10:00:01Z'')
     = Inl (IntegrityError ''NOT NULL constraint failed: messages.from_msisdn'')"
    by (simp add: db_insert_def execute_insert_def)
  have b: "db_insert (Failing ''no such table: messages'') (Some ''m1'') (Some ''+919876543210'')
       (Some ''+14155550100'') (Some ''2025-01-15T10:00:00Z'') None (Some ''2025-01-15T10:00:01Z'')
     = Inl (OperationalError ''no such table: messages'')"
    by (simp add: db_insert_def)
  show ?thesis
    using a b
      insert_message_integrity [of "Ready []" "Some ''m1''" None "Some ''+14155550100''"
        "Some ''2025-01-15T10:00:00Z''" None "Some ''2025-01-15T10:00:01Z''"
        "''NOT NULL constraint failed: messages.from_msisdn''"]
      insert_message_integrity [of "Failing ''no such table: messages''" "Some ''m1''"
        "Some ''+919876543210''" "Some ''+14155550100''"
        "Some ''2025-01-15T10:00:00Z''" None "Some ''2025-01-15T10:00:01Z''"
        "''no such table: messages''"]
    by simp
qed

section \<open>Properties of list\_messages\<close>

text \<open>\<^const>\<open>py_in\<close> finds exactly the contiguous blocks.\<close>

lemma py_in_iff: "py_in a b \<longleftrightarrow> (\<exists>pre suf. b = pre @ a @ suf)"
proof (induction b)
  case Nil
  then show ?case by auto
next
  case (Cons c cs)
  show ?case
  proof
    assume "py_in a (c # cs)"
    then consider "take (length a) (c # cs) = a" | "py_in a cs" by auto
    then show "\<exists>pre suf. c # cs = pre @ a @ suf"
    proof cases
      case 1
      then have "c # cs = [] @ a @ drop (length a) (c # cs)"
        by (metis append_Nil append_take_drop_id)
      then show ?thesis by blast
    next
      case 2
      then obtain pre suf where "cs = pre @ a @ suf" using Cons.IH by auto
      then have "c # cs = (c # pre) @ a @ suf" by simp
      then show ?thesis by blast
    qed
  next
    assume "\<exists>pre suf. c # cs = pre @ a @ suf"
    then obtain pre suf where eq: "c # cs = pre @ a @ suf" by auto
    show "py_in a (c # cs)"
    proof (cases pre)
      case Nil
      then have "take (length a) (c # cs) = a" using eq by simp
      then show ?thesis by simp
    next
      case (Cons p ps)
      then have "cs = ps @ a @ suf" using eq by simp
      then have "py_in a cs" using Cons.IH by blast
      then show ?thesis by simp
    qed
  qed
qed

text \<open>For a window that starts at or after 0, the slice drops \<open>offset\<close> and takes \<open>limit\<close>.\<close>

lemma py_slice_window:
  assumes "0 \<le> offset" "0 \<le> limit"
  shows "py_slice xs offset (offset + limit) = take (nat limit) (drop (nat offset) xs)"
proof (cases "offset \<le> int (length xs)")
  case True
  have "take (nat (min (offset + limit) (int (length xs)) - offset)) (drop (nat offset) xs)
        = take (nat limit) (drop (nat offset) xs)"
  proof (cases "offset + limit \<le> int (length xs)")
    case True
    then show ?thesis by (simp add: min_def)
  next
    case False
    then have "length (drop (nat offset) xs) \<le> nat (int (length xs) - offset)"
      and "length (drop (nat offset) xs) \<le> nat limit"
      using assms by auto
    then show ?thesis using False by (simp add: min_def)
  qed
  then show ?thesis
    using assms True by (simp add: py_slice_def slice_index_def Let_def min_def)
next
  case False
  then show ?thesis
    using assms by (simp add: py_slice_def slice_index_def Let_def min_def)
qed

lemma length_py_slice:
  assumes "0 \<le> offset" "0 \<le> limit"
  shows "int (length (py_slice xs offset (offset + limit)))
         = min limit (max 0 (int (length xs) - offset))"
  using assms by (simp add: py_slice_window)

text \<open>
  The search of \<^verbatim>\<open>q\<close> in Python after the SQL query selects the same rows, in the same
  order, as one filter on the table before sorting.
\<close>

lemma found_rows:
  "q_filter str_lower q (base_select rows from_filter since)
   = map select_columns (sort_key order_key (filter (row_matches str_lower from_filter since q) rows))"
proof -
  have a: "row_matches str_lower from_filter since q
           = (\<lambda>r. where_sql from_filter since r \<and> q_matches str_lower q r)"
    by (simp add: fun_eq_iff row_matches_def)
  have b: "q_filter str_lower q (map select_columns xs) = map select_columns (filter (q_matches str_lower q) xs)" for xs
  proof -
    have "q_matches str_lower q = (\<lambda>r. case q of None \<Rightarrow> True
             | Some s \<Rightarrow> s = [] \<or> py_in (str_lower s) (str_lower (or_empty (msg_text r))))"
      by (simp add: fun_eq_iff q_matches_def)
    then show ?thesis
      by (cases q) (simp_all add: q_filter_def select_columns_def filter_map o_def)
  qed
  show ?thesis
    by (simp add: base_select_def b filter_sort a)
qed

lemma list_messages_Ready:
  "list_messages str_lower (Ready rows) limit offset from_filter since q
   = Inr (py_slice (map select_columns
                      (sort_key order_key (filter (row_matches str_lower from_filter since q) rows)))
            offset (offset + limit),
          int (length (filter (row_matches str_lower from_filter since q) rows)))"
  by (simp add: list_messages_def Let_def found_rows)

lemma sorted_py_slice:
  "sorted (map k xs) \<Longrightarrow> sorted (map k (py_slice xs a b))"
  by (simp add: py_slice_def Let_def take_map [symmetric] drop_map [symmetric])

lemma dict_key_select: "dict_key (select_columns r) = order_key r"
  by (simp add: dict_key_def select_columns_def order_key_def)

text \<open>
  With distinct keys, the sorted rows are determined by the set of rows, not by the
  order in which the table stores them.
\<close>

lemma sort_key_storage_order:
  assumes "distinct (map message_id rows)" "distinct (map message_id rows')"
    and "set rows' = set rows"
  shows "sort_key order_key (filter P rows') = sort_key order_key (filter P rows)"
proof (rule map_sorted_distinct_set_unique [where f = order_key])
  have inj: "inj_on message_id (set rows)" and d: "distinct rows" and d': "distinct rows'"
    using assms by (auto simp add: distinct_map)
  have inj_key: "inj_on order_key (set rows)"
    by (rule inj_onI) (use inj in \<open>auto simp add: order_key_def inj_on_def\<close>)
  show "inj_on order_key
          (set (sort_key order_key (filter P rows')) \<union> set (sort_key order_key (filter P rows)))"
    using inj_key assms(3) by (auto simp add: inj_on_def)
  show "sorted (map order_key (sort_key order_key (filter P rows')))"
    and "sorted (map order_key (sort_key order_key (filter P rows)))"
    by (rule sorted_sort_key)+
  show "distinct (map order_key (sort_key order_key (filter P rows')))"
    using inj_key d' assms(3) by (auto simp add: distinct_map inj_on_def)
  show "distinct (map order_key (sort_key order_key (filter P rows)))"
    using inj_key d by (auto simp add: distinct_map inj_on_def)
  show "set (sort_key order_key (filter P rows')) = set (sort_key order_key (filter P rows))"
    using assms(3) by simp
qed

text \<open>
  Claim C4. For \<open>limit \<ge> 1\<close> and \<open>offset \<ge> 0\<close>, the total that \<^verbatim>\<open>list_messages\<close> returns is
  the number of rows that pass all filters, before pagination; it is the same for every
  other limit and offset with the same filters; the page has
  \<open>min limit (max 0 (total - offset))\<close> entries; and an offset at or beyond the end gives
  the empty page with that total.
\<close>

theorem list_messages_pagination:
  assumes "1 \<le> limit" and "0 \<le> offset"
  shows "let total = int (length (filter (row_matches str_lower from_filter since q) rows))
         in \<exists>page.
              list_messages str_lower (Ready rows) limit offset from_filter since q = Inr (page, total) \<and>
              (\<forall>limit' offset'. \<exists>page'.
                 list_messages str_lower (Ready rows) limit' offset' from_filter since q
                   = Inr (page', total)) \<and>
              int (length page) = min limit (max 0 (total - offset)) \<and>
              (total \<le> offset \<longrightarrow> page = [])"
proof -
  define ordered where
    "ordered = map select_columns
                 (sort_key order_key (filter (row_matches str_lower from_filter since q) rows))"
  define total where "total = int (length (filter (row_matches str_lower from_filter since q) rows))"
  have len: "int (length ordered) = total"
    by (simp add: ordered_def total_def)
  have call: "list_messages str_lower (Ready rows) l off from_filter since q
                = Inr (py_slice ordered off (off + l), total)" for l off
    by (simp add: list_messages_Ready ordered_def total_def)
  have size: "int (length (py_slice ordered offset (offset + limit)))
                = min limit (max 0 (total - offset))"
    using assms length_py_slice [of offset limit ordered] len by simp
  have empty: "py_slice ordered offset (offset + limit) = []" if "total \<le> offset"
    using that size assms by (simp add: min_def max_def split: if_splits)
  show ?thesis
    unfolding Let_def total_def [symmetric]
    using call size empty by blast
qed

text \<open>
  Claim C5. \<^verbatim>\<open>list_messages\<close> returns the window \<open>[offset, offset + limit)\<close> of the
  matching rows arranged by \<open>(ts, message_id)\<close> ascending, so the page is sorted by that
  key, whether timestamps repeat or not. The order is deterministic: any table with the
  same rows and distinct \<^verbatim>\<open>message_id\<close>s gives the same page and total, in whatever
  order the rows are stored.
\<close>

theorem list_messages_ordering:
  "\<exists>page total ordered.
     list_messages str_lower (Ready rows) limit offset from_filter since q = Inr (page, total) \<and>
     mset ordered = mset (filter (row_matches str_lower from_filter since q) rows) \<and>
     sorted (map order_key ordered) \<and>
     page = py_slice (map select_columns ordered) offset (offset + limit) \<and>
     sorted (map dict_key page) \<and>
     (\<forall>rows'. distinct (map message_id rows) \<and> distinct (map message_id rows') \<and>
               set rows' = set rows \<longrightarrow>
        list_messages str_lower (Ready rows') limit offset from_filter since q = Inr (page, total))"
proof -
  define ordered where
    "ordered = sort_key order_key (filter (row_matches str_lower from_filter since q) rows)"
  define page where "page = py_slice (map select_columns ordered) offset (offset + limit)"
  define total where "total = int (length (filter (row_matches str_lower from_filter since q) rows))"
  have call: "list_messages str_lower (Ready rows) limit offset from_filter since q = Inr (page, total)"
    by (simp add: list_messages_Ready ordered_def page_def total_def)
  have perm: "mset ordered = mset (filter (row_matches str_lower from_filter since q) rows)"
    by (simp add: ordered_def)
  have srt: "sorted (map order_key ordered)"
    unfolding ordered_def by (rule sorted_sort_key)
  have "sorted (map dict_key (map select_columns ordered))"
    using srt by (simp add: o_def dict_key_select)
  then have srt_page: "sorted (map dict_key page)"
    unfolding page_def by (rule sorted_py_slice)
  have other: "list_messages str_lower (Ready rows') limit offset from_filter since q = Inr (page, total)"
    if "distinct (map message_id rows)" "distinct (map message_id rows')" "set rows' = set rows"
    for rows'
  proof -
    have "sort_key order_key (filter (row_matches str_lower from_filter since q) rows') = ordered"
      unfolding ordered_def using that by (rule sort_key_storage_order)
    moreover have "length (filter (row_matches str_lower from_filter since q) rows')
                   = length (filter (row_matches str_lower from_filter since q) rows)"
      using calculation by (metis length_sort ordered_def)
    ultimately show ?thesis
      by (simp add: list_messages_Ready page_def total_def)
  qed
  show ?thesis
    using call perm srt srt_page other page_def by blast
qed

text \<open>
  Claim C6. \<^verbatim>\<open>list_messages\<close> lowers the query and each text on their own and looks for
  the one in the other. A capital sigma is lowered to the small sigma when it stands
  alone and to the final sigma at the end of a word, and the two differ. So for every
  lowering function that treats these two strings as Python does, the query consisting
  of a capital sigma does not find the message whose text is \<^verbatim>\<open>ABC\<close> followed by a capital
  sigma: the page is empty and the total is 0, although the text contains the query as
  it stands, letter for letter, and the message is listed when there is no query.
\<close>

theorem list_messages_final_sigma:
  assumes "str_lower capital_sigma = small_sigma"
    and "str_lower (''ABC'' @ capital_sigma) = ''abc'' @ final_sigma"
  shows "msg_text row_sigma = Some (''ABC'' @ capital_sigma) \<and>
     capital_sigma \<noteq> [] \<and>
     list_messages str_lower (Ready [row_sigma]) 50 0 None None (Some capital_sigma)
       = Inr ([], 0) \<and>
     list_messages str_lower (Ready [row_sigma]) 50 0 None None None
       = Inr ([\<lparr>d_message_id = Some ''m4'', d_from = ''+919876543210'',
                 d_to = ''+14155550100'', d_ts = ''2025-01-15T11:00:00Z'',
                 d_text = Some (''ABC'' @ capital_sigma)\<rparr>], 1)"
proof -
  have missed: "\<not> py_in small_sigma (''abc'' @ final_sigma)"
    unfolding small_sigma_def final_sigma_def by code_simp
  have one: "py_slice [d] 0 50 = [d]" for d :: message_dict
    by (simp add: py_slice_def slice_index_def)
  have none: "py_slice ([] :: message_dict list) 0 50 = []"
    by (simp add: py_slice_def slice_index_def)
  have sel: "base_select [row_sigma] None None = [select_columns row_sigma]"
    by (simp add: base_select_def where_sql_def truthy_def)
  have txt_of: "or_empty (d_text (select_columns row_sigma)) = ''ABC'' @ capital_sigma"
    by (simp add: select_columns_def row_sigma_def or_empty_def)
  have ne: "capital_sigma \<noteq> []"
    by (simp add: capital_sigma_def)
  have lowered: "str_lower (or_empty (d_text (select_columns row_sigma))) = ''abc'' @ final_sigma"
    unfolding txt_of by (rule assms(2))
  have "\<not> py_in small_sigma (str_lower (or_empty (d_text (select_columns row_sigma))))"
    unfolding lowered by (rule missed)
  then have dropped: "q_filter str_lower (Some capital_sigma) [select_columns row_sigma] = []"
    using ne by (simp add: q_filter_def Let_def assms(1))
  have kept: "q_filter str_lower None [select_columns row_sigma] = [select_columns row_sigma]"
    by (simp add: q_filter_def)
  have with_q:
    "list_messages str_lower (Ready [row_sigma]) 50 0 None None (Some capital_sigma)
       = Inr ([], 0)"
    by (simp add: list_messages_def Let_def sel dropped none)
  have without_q:
    "list_messages str_lower (Ready [row_sigma]) 50 0 None None None
       = Inr ([select_columns row_sigma], 1)"
    by (simp add: list_messages_def Let_def sel kept one)
  show ?thesis
    using ne with_q without_q by (simp add: select_columns_def row_sigma_def)
qed

text \<open>
  Claim C10. An empty string as \<^verbatim>\<open>from\<close> filter, as \<^verbatim>\<open>since\<close> bound or as text query
  gives the same page and total as leaving that argument out, for every limit and
  offset.
\<close>

theorem list_messages_empty_string_filter:
  "list_messages str_lower db limit offset (Some []) since q
     = list_messages str_lower db limit offset None since q \<and>
   list_messages str_lower db limit offset from_filter (Some []) q
     = list_messages str_lower db limit offset from_filter None q \<and>
   list_messages str_lower db limit offset from_filter since (Some [])
     = list_messages str_lower db limit offset from_filter since None"
proof -
  have w1: "where_sql (Some []) since = where_sql None since"
    by (simp add: fun_eq_iff where_sql_def truthy_def)
  have w2: "where_sql from_filter (Some []) = where_sql from_filter None"
    by (simp add: fun_eq_iff where_sql_def truthy_def)
  have q: "q_filter str_lower (Some []) ds = q_filter str_lower None ds" for ds
    by (simp add: q_filter_def)
  show ?thesis
    by (cases db) (simp_all add: list_messages_def base_select_def w1 w2 q)
qed

subsection \<open>Concrete instances\<close>

lemma example_rows_all:
  "filter (row_matches ascii_lower None None None) example_rows = example_rows"
  by (simp add: row_matches_def where_sql_def truthy_def q_matches_def)

text \<open>Three rows, two per page: the page at offset 5 is empty, the page at offset 2 has one row.\<close>

theorem list_messages_pagination_witness:
  "(1::int) \<le> 2 \<and> (0::int) \<le> 5 \<and>
   list_messages ascii_lower (Ready example_rows) 2 5 None None None = Inr ([], 3) \<and>
   (\<exists>page. list_messages ascii_lower (Ready example_rows) 2 2 None None None = Inr (page, 3) \<and>
           length page = 1)"
proof -
  have n: "int (length (filter (row_matches ascii_lower None None None) example_rows)) = 3"
    by (simp add: example_rows_all) (simp add: example_rows_def)
  have beyond: "list_messages ascii_lower (Ready example_rows) 2 5 None None None = Inr ([], 3)"
    using list_messages_pagination [where limit = 2 and offset = 5 and from_filter = None
        and since = None and q = None and rows = example_rows and str_lower = ascii_lower] n
    by (auto simp add: Let_def)
  have last: "\<exists>page. list_messages ascii_lower (Ready example_rows) 2 2 None None None = Inr (page, 3) \<and>
           length page = 1"
    using list_messages_pagination [where limit = 2 and offset = 2 and from_filter = None
        and since = None and q = None and rows = example_rows and str_lower = ascii_lower] n
    by (auto simp add: Let_def)
  show ?thesis
    using beyond last by simp
qed

text \<open>The example table and the same rows stored in reverse order give the same sorted page.\<close>

theorem list_messages_ordering_witness:
  "distinct (map message_id example_rows) \<and>
   distinct (map message_id (rev example_rows)) \<and>
   set (rev example_rows) = set example_rows \<and>
   (\<exists>page total.
      list_messages ascii_lower (Ready example_rows) 50 0 None None None = Inr (page, total) \<and>
      list_messages ascii_lower (Ready (rev example_rows)) 50 0 None None None = Inr (page, total) \<and>
      sorted (map dict_key page))"
proof -
  have d: "distinct (map message_id example_rows)"
    by (simp add: example_rows_def row_m1_def row_m2_def row_m3_def)
  then have d': "distinct (map message_id (rev example_rows))"
    by (simp add: rev_map [symmetric])
  have s: "set (rev example_rows) = set example_rows"
    by simp
  show ?thesis
    using list_messages_ordering [where rows = example_rows and limit = 50 and offset = 0
        and from_filter = None and since = None and q = None and str_lower = ascii_lower] d d' s
    by blast
qed

lemma example_rows_sorted:
  "list_messages ascii_lower (Ready example_rows) 50 0 None None None
   = Inr (map select_columns [row_m2, row_m1, row_m3], 3)"
  unfolding example_rows_def by code_simp

text \<open>The lowering function of the instance treats the two strings as Python does.\<close>

theorem list_messages_final_sigma_witness:
  "sigma_lower capital_sigma = small_sigma \<and>
   sigma_lower (''ABC'' @ capital_sigma) = ''abc'' @ final_sigma \<and>
   list_messages sigma_lower (Ready [row_sigma]) 50 0 None None (Some capital_sigma)
     = Inr ([], 0)"
proof -
  have a: "sigma_lower capital_sigma = small_sigma"
    by (simp add: sigma_lower_def)
  have b: "sigma_lower (''ABC'' @ capital_sigma) = ''abc'' @ final_sigma"
    by (simp add: sigma_lower_def capital_sigma_def)
  show ?thesis
    using list_messages_final_sigma [OF a b] a b by simp
qed

text \<open>With all three filters empty, the whole example table is returned.\<close>

theorem list_messages_empty_string_filter_witness:
  "list_messages ascii_lower (Ready example_rows) 50 0 (Some []) (Some []) (Some [])
   = Inr (map select_columns [row_m2, row_m1, row_m3], 3)"
  using
    list_messages_empty_string_filter [where str_lower = ascii_lower
      and db = "Ready example_rows" and limit = 50
      and offset = 0 and since = "Some []" and q = "Some []" and from_filter = None]
    list_messages_empty_string_filter [where str_lower = ascii_lower
      and db = "Ready example_rows" and limit = 50
      and offset = 0 and since = None and q = "Some []" and from_filter = None]
    list_messages_empty_string_filter [where str_lower = ascii_lower
      and db = "Ready example_rows" and limit = 50
      and offset = 0 and since = None and q = None and from_filter = None]
    example_rows_sorted
  by simp

section \<open>Properties of the metrics collector\<close>

text \<open>\<^verbatim>\<open>d[k] += 1\<close> raises the count of \<open>k\<close> by one and leaves every other count.\<close>

lemma dd_get_dd_inc:
  "dd_get k' (dd_inc k d) = (if k' = k then dd_get k d + 1 else dd_get k' d)"
  by (induction d) (auto simp add: dd_get_def)

text \<open>One call raises the bucket of its latency and leaves the two counter families.\<close>

lemma observe_latency_bucket:
  "latency_buckets (observe_latency m ms) = dd_inc (bucket_of ms) (latency_buckets m)"
  by (cases ms) (simp_all add: observe_latency_def bucket_of_def)

lemma observe_latency_others:
  "http_requests (observe_latency m ms) = http_requests m \<and>
   webhook_requests (observe_latency m ms) = webhook_requests m"
  by (simp add: observe_latency_def)

lemma bucket_of_cases:
  "(bucket_of (Finite x) = ''100'') = (x \<le> 100) \<and>
   (bucket_of (Finite x) = ''500'') = (100 < x \<and> x \<le> 500) \<and>
   (bucket_of (Finite x) = ''+Inf'') = (500 < x) \<and>
   bucket_of NegInf = ''100'' \<and> bucket_of PosInf = ''+Inf'' \<and> bucket_of NaN = ''+Inf''"
  by (auto simp add: bucket_of_def)

lemma bucket_of_at_most:
  "(bucket_of v = ''100'') = at_most 100 v \<and>
   (bucket_of v = ''500'') = (at_most 500 v \<and> \<not> at_most 100 v) \<and>
   (bucket_of v = ''+Inf'') = (\<not> at_most 500 v)"
  by (cases v) (auto simp add: bucket_of_def at_most_def)

text \<open>
  After a sequence of calls on a fresh collector each bucket holds the number of
  observations that fall into it; the calls on the counters do not touch the buckets.
\<close>

lemma apply_call_latency:
  "latency_buckets (apply_call m c)
   = (case c of Observe_latency ms \<Rightarrow> dd_inc (bucket_of ms) (latency_buckets m)
      | _ \<Rightarrow> latency_buckets m)"
  by (cases c) (simp_all add: inc_http_def inc_webhook_def observe_latency_bucket)

lemma observations_append:
  "observations (cs @ [c])
   = observations cs @ (case c of Observe_latency ms \<Rightarrow> [ms] | _ \<Rightarrow> [])"
  by (induction cs rule: observations.induct) (simp_all split: call.splits)

lemma foldl_apply_call_buckets:
  "dd_get k (latency_buckets (foldl apply_call m cs))
   = dd_get k (latency_buckets m) + length (filter (\<lambda>v. bucket_of v = k) (observations cs))"
proof (induction cs rule: rev_induct)
  case Nil
  then show ?case by simp
next
  case (snoc c cs)
  then show ?case
    by (cases c)
      (auto simp add: inc_http_def inc_webhook_def observe_latency_bucket observations_append
         dd_get_dd_inc)
qed

lemma run_calls_buckets:
  "dd_get ''100'' (latency_buckets (run_calls cs)) = length (filter (at_most 100) (observations cs))"
  "dd_get ''100'' (latency_buckets (run_calls cs)) + dd_get ''500'' (latency_buckets (run_calls cs))
     = length (filter (at_most 500) (observations cs))"
  "dd_get ''100'' (latency_buckets (run_calls cs)) + dd_get ''500'' (latency_buckets (run_calls cs))
     + dd_get ''+Inf'' (latency_buckets (run_calls cs)) = length (observations cs)"
proof -
  have zero: "dd_get k (latency_buckets Metrics) = 0" for k
    by (simp add: Metrics_def dd_get_def)
  have imp: "at_most 100 v \<Longrightarrow> at_most 500 v" for v
    by (cases v) (simp_all add: at_most_def)
  have s1: "length (filter (at_most 100) obs) + length (filter (\<lambda>v. at_most 500 v \<and> \<not> at_most 100 v) obs)
        = length (filter (at_most 500) obs)" for obs
    by (induction obs) (auto dest: imp)
  have s2: "length (filter (at_most 500) obs) + length (filter (\<lambda>v. \<not> at_most 500 v) obs)
        = length obs" for obs
    by (induction obs) auto
  have c: "dd_get ''100'' (latency_buckets (run_calls cs))
             = length (filter (at_most 100) (observations cs))"
    "dd_get ''500'' (latency_buckets (run_calls cs))
             = length (filter (\<lambda>v. at_most 500 v \<and> \<not> at_most 100 v) (observations cs))"
    "dd_get ''+Inf'' (latency_buckets (run_calls cs))
             = length (filter (\<lambda>v. \<not> at_most 500 v) (observations cs))"
    unfolding run_calls_def foldl_apply_call_buckets zero
    by (simp_all add: bucket_of_at_most)
  show "dd_get ''100'' (latency_buckets (run_calls cs)) = length (filter (at_most 100) (observations cs))"
    by (rule c(1))
  show "dd_get ''100'' (latency_buckets (run_calls cs)) + dd_get ''500'' (latency_buckets (run_calls cs))
     = length (filter (at_most 500) (observations cs))"
    unfolding c by (rule s1)
  show "dd_get ''100'' (latency_buckets (run_calls cs)) + dd_get ''500'' (latency_buckets (run_calls cs))
     + dd_get ''+Inf'' (latency_buckets (run_calls cs)) = length (observations cs)"
    unfolding c s1 by (rule s2)
qed

text \<open>Joining lines with newlines and adding a last one ends every line with a newline.\<close>

lemma join_lines_newlines:
  "ls \<noteq> [] \<Longrightarrow> join_lines ls @ [CHR 0x0A] = concat (map (\<lambda>l. l @ [CHR 0x0A]) ls)"
  by (induction ls rule: join_lines.induct) simp_all

text \<open>\<^verbatim>\<open>str(n)\<close> is the decimal numeral of \<open>n\<close>.\<close>

lemma digit_char_value:
  "d < 10 \<Longrightarrow> of_char (digit_char d) = 48 + d"
  by (simp add: digit_char_def)

lemma digit_char_range:
  "d < 10 \<Longrightarrow> CHR ''0'' \<le> digit_char d \<and> digit_char d \<le> CHR ''9''"
  by (simp add: less_eq_char_def digit_char_def)

lemma is_decimal_str_nat: "is_decimal (str_nat n) n"
proof (induction n rule: str_nat.induct)
  case (1 n)
  show ?case
  proof (cases "n < 10")
    case True
    then have s: "str_nat n = [digit_char n]"
      by (simp add: str_nat.simps)
    show ?thesis
      using True digit_char_range [of n]
      by (simp add: s is_decimal_def digit_char_value)
  next
    case False
    then have s: "str_nat n = str_nat (n div 10) @ [digit_char (n mod 10)]"
      by (simp add: str_nat.simps)
    have ih: "is_decimal (str_nat (n div 10)) (n div 10)"
      using 1 False by simp
    have pos: "0 < n div 10"
      using False by simp
    have m: "n mod 10 < 10"
      by simp
    have ne: "str_nat (n div 10) \<noteq> []"
      using ih by (simp add: is_decimal_def)
    have hd_ok: "hd (str_nat (n div 10)) \<noteq> CHR ''0''"
    proof (cases "length (str_nat (n div 10)) = 1")
      case True
      then obtain c where c: "str_nat (n div 10) = [c]"
        by (cases "str_nat (n div 10)") auto
      have "of_char c - 48 = n div 10"
        using ih by (simp add: is_decimal_def c)
      then have "c \<noteq> CHR ''0''"
        using pos by auto
      then show ?thesis
        by (simp add: c)
    next
      case False
      then show ?thesis
        using ih by (simp add: is_decimal_def)
    qed
    have v: "foldl (\<lambda>a c. 10 * a + (of_char c - 48)) 0 (str_nat (n div 10)) = n div 10"
      using ih by (simp add: is_decimal_def)
    have digits: "list_all (\<lambda>c. CHR ''0'' \<le> c \<and> c \<le> CHR ''9'') (str_nat (n div 10))"
      using ih by (simp add: is_decimal_def)
    show ?thesis
      unfolding is_decimal_def s
      using ne hd_ok v digits digit_char_range [OF m] digit_char_value [OF m]
      by simp
  qed
qed

text \<open>The rendered text: the counter lines, then the four latency lines.\<close>

lemma render_prometheus_text:
  \<open>render_prometheus m
     = concat (map (\<lambda>l. l @ [CHR 0x0A])
                (map http_line (http_requests m) @ map webhook_line (webhook_requests m))) @
       ''request_latency_ms_bucket{le="100"} '' @
         str_nat (dd_get ''100'' (latency_buckets m)) @ [CHR 0x0A] @
       ''request_latency_ms_bucket{le="500"} '' @
         str_nat (dd_get ''100'' (latency_buckets m) + dd_get ''500'' (latency_buckets m))
         @ [CHR 0x0A] @
       ''request_latency_ms_bucket{le="+Inf"} '' @
         str_nat (dd_get ''100'' (latency_buckets m) + dd_get ''500'' (latency_buckets m)
                  + dd_get ''+Inf'' (latency_buckets m)) @ [CHR 0x0A] @
       ''request_latency_ms_count '' @
         str_nat (dd_get ''100'' (latency_buckets m) + dd_get ''500'' (latency_buckets m)
                  + dd_get ''+Inf'' (latency_buckets m)) @ [CHR 0x0A]\<close>
proof -
  have ne: "map http_line (http_requests m) @ map webhook_line (webhook_requests m)
              @ latency_lines m \<noteq> []"
    by (simp add: latency_lines_def Let_def)
  have "render_prometheus m
          = concat (map (\<lambda>l. l @ [CHR 0x0A])
              (map http_line (http_requests m) @ map webhook_line (webhook_requests m)
               @ latency_lines m))"
    unfolding render_prometheus_def using ne by (rule join_lines_newlines)
  then show ?thesis
    by (simp add: latency_lines_def Let_def)
qed

text \<open>
  Claim C8. One \<^verbatim>\<open>observe_latency\<close> call raises the count of exactly one bucket by one and
  leaves the other buckets and the counters: for a number \<open>x\<close> it is the bucket \<^verbatim>\<open>100\<close>
  when \<open>x \<le> 100\<close>, \<^verbatim>\<open>500\<close> when \<open>100 < x \<le> 500\<close> and \<^verbatim>\<open>+Inf\<close> when \<open>x > 500\<close>; minus
  infinity goes to \<^verbatim>\<open>100\<close>, and plus infinity and NaN go to \<^verbatim>\<open>+Inf\<close>. After any sequence
  of calls on a fresh collector, \<^verbatim>\<open>inc_http\<close> and \<^verbatim>\<open>inc_webhook\<close> among them, the rendered
  text is the counter lines followed by four lines, each ended by a newline: the
  \<^verbatim>\<open>le="100"\<close> line with the decimal numeral of the number of observations up to 100, the
  \<^verbatim>\<open>le="500"\<close> line with that of the observations up to 500, and the \<^verbatim>\<open>le="+Inf"\<close> line and
  the count line, both with that of all observations. The three numbers ascend.
\<close>

theorem observe_latency_cumulative:
  \<open>(\<forall>k. dd_get k (latency_buckets (observe_latency m ms))
          = dd_get k (latency_buckets m) + (if k = bucket_of ms then 1 else 0)) \<and>
    http_requests (observe_latency m ms) = http_requests m \<and>
    webhook_requests (observe_latency m ms) = webhook_requests m \<and>
    (bucket_of (Finite x) = ''100'') = (x \<le> 100) \<and>
    (bucket_of (Finite x) = ''500'') = (100 < x \<and> x \<le> 500) \<and>
    (bucket_of (Finite x) = ''+Inf'') = (500 < x) \<and>
    bucket_of NegInf = ''100'' \<and> bucket_of PosInf = ''+Inf'' \<and> bucket_of NaN = ''+Inf'' \<and>
    (let obs = observations cs;
         le_100 = length (filter (at_most 100) obs);
         le_500 = length (filter (at_most 500) obs);
         le_inf = length obs
     in (\<exists>d100 d500 dinf.
           is_decimal d100 le_100 \<and> is_decimal d500 le_500 \<and> is_decimal dinf le_inf \<and>
           render_prometheus (run_calls cs)
             = concat (map (\<lambda>l. l @ [CHR 0x0A])
                        (map http_line (http_requests (run_calls cs)) @
                         map webhook_line (webhook_requests (run_calls cs)))) @
               ''request_latency_ms_bucket{le="100"} '' @ d100 @ [CHR 0x0A] @
               ''request_latency_ms_bucket{le="500"} '' @ d500 @ [CHR 0x0A] @
               ''request_latency_ms_bucket{le="+Inf"} '' @ dinf @ [CHR 0x0A] @
               ''request_latency_ms_count '' @ dinf @ [CHR 0x0A]) \<and>
        le_100 \<le> le_500 \<and> le_500 \<le> le_inf)\<close>
proof -
  have one: "\<forall>k. dd_get k (latency_buckets (observe_latency m ms))
          = dd_get k (latency_buckets m) + (if k = bucket_of ms then 1 else 0)"
    by (simp add: observe_latency_bucket dd_get_dd_inc)
  define le_100 where "le_100 = length (filter (at_most 100) (observations cs))"
  define le_500 where "le_500 = length (filter (at_most 500) (observations cs))"
  define le_inf where "le_inf = length (observations cs)"
  have c100: "dd_get ''100'' (latency_buckets (run_calls cs)) = le_100"
    unfolding le_100_def by (rule run_calls_buckets)
  have c500: "le_100 + dd_get ''500'' (latency_buckets (run_calls cs)) = le_500"
    unfolding le_500_def c100 [symmetric] by (rule run_calls_buckets)
  have cinf: "le_500 + dd_get ''+Inf'' (latency_buckets (run_calls cs)) = le_inf"
    unfolding le_inf_def c500 [symmetric] c100 [symmetric] by (rule run_calls_buckets)
  have mono: "le_100 \<le> le_500" "le_500 \<le> le_inf"
    using c500 cinf by linarith+
  have rendered: \<open>render_prometheus (run_calls cs)
             = concat (map (\<lambda>l. l @ [CHR 0x0A])
                        (map http_line (http_requests (run_calls cs)) @
                         map webhook_line (webhook_requests (run_calls cs)))) @
               ''request_latency_ms_bucket{le="100"} '' @ str_nat le_100 @ [CHR 0x0A] @
               ''request_latency_ms_bucket{le="500"} '' @ str_nat le_500 @ [CHR 0x0A] @
               ''request_latency_ms_bucket{le="+Inf"} '' @ str_nat le_inf @ [CHR 0x0A] @
               ''request_latency_ms_count '' @ str_nat le_inf @ [CHR 0x0A]\<close>
    unfolding render_prometheus_text [of "run_calls cs"] c100 c500 cinf by (rule refl)
  have \<open>is_decimal (str_nat le_100) le_100 \<and> is_decimal (str_nat le_500) le_500 \<and>
        is_decimal (str_nat le_inf) le_inf \<and>
        render_prometheus (run_calls cs)
             = concat (map (\<lambda>l. l @ [CHR 0x0A])
                        (map http_line (http_requests (run_calls cs)) @
                         map webhook_line (webhook_requests (run_calls cs)))) @
               ''request_latency_ms_bucket{le="100"} '' @ str_nat le_100 @ [CHR 0x0A] @
               ''request_latency_ms_bucket{le="500"} '' @ str_nat le_500 @ [CHR 0x0A] @
               ''request_latency_ms_bucket{le="+Inf"} '' @ str_nat le_inf @ [CHR 0x0A] @
               ''request_latency_ms_count '' @ str_nat le_inf @ [CHR 0x0A]\<close>
    using rendered by (simp only: is_decimal_str_nat simp_thms)
  then have text_ok: \<open>\<exists>d100 d500 dinf.
           is_decimal d100 le_100 \<and> is_decimal d500 le_500 \<and> is_decimal dinf le_inf \<and>
           render_prometheus (run_calls cs)
             = concat (map (\<lambda>l. l @ [CHR 0x0A])
                        (map http_line (http_requests (run_calls cs)) @
                         map webhook_line (webhook_requests (run_calls cs)))) @
               ''request_latency_ms_bucket{le="100"} '' @ d100 @ [CHR 0x0A] @
               ''request_latency_ms_bucket{le="500"} '' @ d500 @ [CHR 0x0A] @
               ''request_latency_ms_bucket{le="+Inf"} '' @ dinf @ [CHR 0x0A] @
               ''request_latency_ms_count '' @ dinf @ [CHR 0x0A]\<close>
    by (intro exI)
  show ?thesis
    unfolding Let_def le_100_def [symmetric] le_500_def [symmetric] le_inf_def [symmetric]
    using one observe_latency_others [of m ms] bucket_of_cases [of x] text_ok mono
    by (intro conjI) simp_all
qed

lemma example_run:
  "run_calls example_calls
   = \<lparr>http_requests = [((''/health/live'', ''200''), 8), ((''/webhook'', ''200''), 2),
                        ((''/webhook'', ''401''), 1), ((''/messages'', ''200''), 1)],
      webhook_requests = [(''created'', 1), (''duplicate'', 1), (''invalid_signature'', 1)],
      latency_buckets = [(''100'', 10), (''500'', 1), (''+Inf'', 1)]\<rparr>"
  unfolding example_calls_def by code_simp

text \<open>
  Twelve requests as the middleware records them, three of them to the webhook: the
  whole rendered text. And a NaN observed on a fresh collector raises the \<^verbatim>\<open>+Inf\<close>
  bucket and nothing else.
\<close>

theorem observe_latency_cumulative_witness:
  \<open>render_prometheus (run_calls example_calls)
     = ''http_requests_total{path="/health/live",status="200"} 8'' @ [CHR 0x0A] @
       ''http_requests_total{path="/webhook",status="200"} 2'' @ [CHR 0x0A] @
       ''http_requests_total{path="/webhook",status="401"} 1'' @ [CHR 0x0A] @
       ''http_requests_total{path="/messages",status="200"} 1'' @ [CHR 0x0A] @
       ''webhook_requests_total{result="created"} 1'' @ [CHR 0x0A] @
       ''webhook_requests_total{result="duplicate"} 1'' @ [CHR 0x0A] @
       ''webhook_requests_total{result="invalid_signature"} 1'' @ [CHR 0x0A] @
       ''request_latency_ms_bucket{le="100"} 10'' @ [CHR 0x0A] @
       ''request_latency_ms_bucket{le="500"} 11'' @ [CHR 0x0A] @
       ''request_latency_ms_bucket{le="+Inf"} 12'' @ [CHR 0x0A] @
       ''request_latency_ms_count 12'' @ [CHR 0x0A] \<and>
    observe_latency Metrics (Finite 250)
      = \<lparr>http_requests = [], webhook_requests = [], latency_buckets = [(''500'', 1)]\<rparr> \<and>
    observe_latency Metrics NaN
      = \<lparr>http_requests = [], webhook_requests = [], latency_buckets = [(''+Inf'', 1)]\<rparr> \<and>
    (\<forall>k. dd_get k (latency_buckets (observe_latency Metrics NaN))
          = dd_get k (latency_buckets Metrics) + (if k = ''+Inf'' then 1 else 0)) \<and>
    length (filter (at_most 100) (observations example_calls)) = 10 \<and>
    length (filter (at_most 500) (observations example_calls)) = 11 \<and>
    length (observations example_calls) = 12 \<and>
    is_decimal ''10'' 10 \<and> \<not> is_decimal ''010'' 10 \<and> \<not> is_decimal [] 0\<close>
proof -
  have rendered: \<open>render_prometheus (run_calls example_calls)
     = ''http_requests_total{path="/health/live",status="200"} 8'' @ [CHR 0x0A] @
       ''http_requests_total{path="/webhook",status="200"} 2'' @ [CHR 0x0A] @
       ''http_requests_total{path="/webhook",status="401"} 1'' @ [CHR 0x0A] @
       ''http_requests_total{path="/messages",status="200"} 1'' @ [CHR 0x0A] @
       ''webhook_requests_total{result="created"} 1'' @ [CHR 0x0A] @
       ''webhook_requests_total{result="duplicate"} 1'' @ [CHR 0x0A] @
       ''webhook_requests_total{result="invalid_signature"} 1'' @ [CHR 0x0A] @
       ''request_latency_ms_bucket{le="100"} 10'' @ [CHR 0x0A] @
       ''request_latency_ms_bucket{le="500"} 11'' @ [CHR 0x0A] @
       ''request_latency_ms_bucket{le="+Inf"} 12'' @ [CHR 0x0A] @
       ''request_latency_ms_count 12'' @ [CHR 0x0A]\<close>
    unfolding example_run by code_simp
  have finite: "observe_latency Metrics (Finite 250)
      = \<lparr>http_requests = [], webhook_requests = [], latency_buckets = [(''500'', 1)]\<rparr>"
    by (simp add: observe_latency_def Metrics_def)
  have nan: "observe_latency Metrics NaN
      = \<lparr>http_requests = [], webhook_requests = [], latency_buckets = [(''+Inf'', 1)]\<rparr>"
    by (simp add: observe_latency_def Metrics_def)
  note inst = observe_latency_cumulative [where m = Metrics and ms = NaN and x = 250
      and cs = example_calls]
  have label: "bucket_of NaN = ''+Inf''"
    using inst by (elim conjE)
  have "\<forall>k. dd_get k (latency_buckets (observe_latency Metrics NaN))
          = dd_get k (latency_buckets Metrics) + (if k = bucket_of NaN then 1 else 0)"
    using inst by (elim conjE)
  then have counted: "\<forall>k. dd_get k (latency_buckets (observe_latency Metrics NaN))
          = dd_get k (latency_buckets Metrics) + (if k = ''+Inf'' then 1 else 0)"
    unfolding label .
  have n100: "length (filter (at_most 100) (observations example_calls)) = 10"
    unfolding example_calls_def by code_simp
  have n500: "length (filter (at_most 500) (observations example_calls)) = 11"
    unfolding example_calls_def by code_simp
  have ninf: "length (observations example_calls) = 12"
    unfolding example_calls_def by code_simp
  have d1: "is_decimal ''10'' 10"
    by code_simp
  have d2: "\<not> is_decimal ''010'' 10"
    by code_simp
  have d3: "\<not> is_decimal [] 0"
    by code_simp
  show ?thesis
    using rendered finite nan counted n100 n500 ninf d1 d2 d3
    by (intro conjI) assumption+
qed


section \<open>Properties of stats\<close>

text \<open>The groups of the query: one per sender, with the number of its messages.\<close>

lemma group_by_sender_set:
  "set (group_by_sender rows) = (\<lambda>s. (s, messages_from rows s)) ` from_msisdn ` set rows"
  by (auto simp add: group_by_sender_def messages_from_def)

lemma group_by_sender_distinct: "distinct (map fst (group_by_sender rows))"
  by (simp add: group_by_sender_def o_def)

lemma group_by_sender_length:
  "length (group_by_sender rows) = card (from_msisdn ` set rows)"
  by (simp add: group_by_sender_def length_remdups_card_conv)

text \<open>
  What every answer to \<^verbatim>\<open>ORDER BY c DESC LIMIT n\<close> has: descending counts, \<open>n\<close> groups or
  all of them, and no left-out group with a larger count than a returned one.
\<close>

lemma order_by_c_desc_limit_sound:
  assumes "order_by_c_desc_limit groups n res"
  shows "sorted_wrt (\<lambda>a b. snd b \<le> snd a) res \<and>
         length res = min n (length groups) \<and>
         set res \<subseteq> set groups \<and>
         (distinct (map fst groups) \<longrightarrow> distinct (map fst res)) \<and>
         (\<forall>g \<in> set groups. g \<notin> set res \<longrightarrow> (\<forall>x \<in> set res. snd g \<le> snd x))"
  using assms
proof cases
  case (1 arranged)
  have len: "length arranged = length groups"
    using 1(2) by (rule mset_eq_length)
  have st: "set arranged = set groups"
    using 1(2) by (rule mset_eq_setD)
  have srt: "\<forall>x \<in> set (take n arranged). \<forall>y \<in> set (drop n arranged). snd y \<le> snd x"
    using 1(3) by (metis append_take_drop_id sorted_wrt_append)
  have rest: "snd g \<le> snd x" if "g \<in> set groups" "g \<notin> set res" "x \<in> set res" for g x
  proof -
    have "g \<in> set (take n arranged) \<union> set (drop n arranged)"
      using that(1) st by (metis append_take_drop_id set_append)
    then have "g \<in> set (drop n arranged)"
      using that(2) 1(1) by simp
    then show ?thesis
      using srt that(3) 1(1) by simp
  qed
  have dist: "distinct (map fst res)" if "distinct (map fst groups)"
  proof -
    have "mset (map fst arranged) = mset (map fst groups)"
      using 1(2) by (metis mset_map)
    then have "distinct (map fst arranged)"
      using that by (metis mset_eq_imp_distinct_iff)
    then show ?thesis
      unfolding 1(1) by (simp add: take_map [symmetric])
  qed
  show ?thesis
    using 1(1) 1(3) len st rest dist
    by (auto dest: in_set_takeD)
qed

text \<open>The query always has an answer.\<close>

lemma order_by_c_desc_limit_total: "\<exists>res. order_by_c_desc_limit groups n res"
proof -
  have "mset (rev (sort_key snd groups)) = mset groups"
    by simp
  moreover have "sorted_wrt (\<lambda>a b. snd b \<le> snd a) (rev (sort_key snd groups))"
  proof -
    have "sorted (map snd (sort_key snd groups))"
      by (rule sorted_sort_key)
    then have "sorted_wrt (\<lambda>a b. snd a \<le> snd b) (sort_key snd groups)"
      by (simp add: sorted_map)
    then show ?thesis
      by (simp add: sorted_wrt_rev)
  qed
  ultimately show ?thesis
    by (blast intro: order_by_c_desc_limit.intros)
qed

text \<open>
  Claim C3, as amended. On every table \<^verbatim>\<open>stats\<close> returns, and whatever it returns as
  \<^verbatim>\<open>messages_per_sender\<close> lists 10 senders, or all senders when there are fewer, ordered
  by count descending, each sender once and paired with the number of its messages, and
  no sender left out has more messages than a listed one. The order of senders with
  equal counts is not part of the statement: the query does not fix it.
\<close>

theorem stats_top_senders:
  "(\<exists>s. stats (Ready rows) (Inr s)) \<and>
   (\<forall>s. stats (Ready rows) (Inr s) \<longrightarrow>
      sorted_wrt (\<lambda>a b. snd b \<le> snd a) (messages_per_sender s) \<and>
      length (messages_per_sender s) = min 10 (card (from_msisdn ` set rows)) \<and>
      distinct (map fst (messages_per_sender s)) \<and>
      (\<forall>(sender, c) \<in> set (messages_per_sender s).
         sender \<in> from_msisdn ` set rows \<and> c = messages_from rows sender) \<and>
      (\<forall>sender \<in> from_msisdn ` set rows.
         sender \<notin> fst ` set (messages_per_sender s) \<longrightarrow>
         (\<forall>(x, c) \<in> set (messages_per_sender s). messages_from rows sender \<le> c)))"
proof (intro conjI allI impI)
  show "\<exists>s. stats (Ready rows) (Inr s)"
    using order_by_c_desc_limit_total [of "group_by_sender rows" 10]
    by (blast intro: stats_ready)
next
  fix s
  assume "stats (Ready rows) (Inr s)"
  then obtain per_sender where res: "messages_per_sender s = per_sender"
    and ord: "order_by_c_desc_limit (group_by_sender rows) 10 per_sender"
    by cases auto
  note snd = order_by_c_desc_limit_sound [OF ord]
  show "sorted_wrt (\<lambda>a b. snd b \<le> snd a) (messages_per_sender s)"
    using snd res by simp
  show "length (messages_per_sender s) = min 10 (card (from_msisdn ` set rows))"
    using snd res by (simp add: group_by_sender_length)
  show "distinct (map fst (messages_per_sender s))"
    using snd res group_by_sender_distinct by simp
  show "\<forall>(sender, c) \<in> set (messages_per_sender s).
          sender \<in> from_msisdn ` set rows \<and> c = messages_from rows sender"
    using snd res by (auto simp add: group_by_sender_set)
  show "\<forall>sender \<in> from_msisdn ` set rows.
          sender \<notin> fst ` set (messages_per_sender s) \<longrightarrow>
          (\<forall>(x, c) \<in> set (messages_per_sender s). messages_from rows sender \<le> c)"
  proof (rule ballI, rule impI)
    fix sender
    assume a: "sender \<in> from_msisdn ` set rows"
      and b: "sender \<notin> fst ` set (messages_per_sender s)"
    have g: "(sender, messages_from rows sender) \<in> set (group_by_sender rows)"
      using a by (auto simp add: group_by_sender_set)
    have "(sender, messages_from rows sender) \<notin> set per_sender"
      using b res by force
    then have "\<forall>x \<in> set per_sender. messages_from rows sender \<le> snd x"
      using snd g by fastforce
    then show "\<forall>(x, c) \<in> set (messages_per_sender s). messages_from rows sender \<le> c"
      using res by auto
  qed
qed

text \<open>
  Claim C3 as stated asks for senders with equal counts in ascending order. The query
  sorts by the count only: on a table with one message from each of two senders, it may
  return the larger sender identifier first.
\<close>

theorem stats_tie_order_counterexample:
  "stats (Ready [row_m1, row_m2])
     (Inr \<lparr>total_messages = 2, senders_count = 2,
           messages_per_sender = [(''+919876543210'', 1), (''+911234567890'', 1)],
           first_message_ts = Some ''2025-01-15T09:00:00Z'',
           last_message_ts = Some ''2025-01-15T10:00:00Z''\<rparr>) \<and>
   \<not> count_desc_sender_asc [(''+919876543210'', 1), (''+911234567890'', 1)]"
proof
  have groups: "group_by_sender [row_m1, row_m2]
                = [(''+919876543210'', 1), (''+911234567890'', 1)]"
    by (simp add: group_by_sender_def row_m1_def row_m2_def)
  have "order_by_c_desc_limit (group_by_sender [row_m1, row_m2]) 10
          (take 10 [(''+919876543210'', 1), (''+911234567890'', 1)])"
    by (rule order_by_c_desc_limit.intros) (simp_all add: groups)
  then have ord: "order_by_c_desc_limit (group_by_sender [row_m1, row_m2]) 10
          [(''+919876543210'', 1), (''+911234567890'', 1)]"
    by simp
  have fields: "length [row_m1, row_m2] = 2"
    "length (remdups (map from_msisdn [row_m1, row_m2])) = 2"
    by (simp_all add: row_m1_def row_m2_def)
  have first: "min_ts [row_m1, row_m2] = Some ''2025-01-15T09:00:00Z''"
    by (simp add: min_ts_def row_m1_def row_m2_def min_def)
  have last: "max_ts [row_m1, row_m2] = Some ''2025-01-15T10:00:00Z''"
    by (simp add: max_ts_def row_m1_def row_m2_def max_def)
  show "stats (Ready [row_m1, row_m2])
     (Inr \<lparr>total_messages = 2, senders_count = 2,
           messages_per_sender = [(''+919876543210'', 1), (''+911234567890'', 1)],
           first_message_ts = Some ''2025-01-15T09:00:00Z'',
           last_message_ts = Some ''2025-01-15T10:00:00Z''\<rparr>)"
    using stats_ready [OF ord] by (simp only: fields first last)
  show "\<not> count_desc_sender_asc [(''+919876543210'', 1), (''+911234567890'', 1)]"
    by (simp add: count_desc_sender_asc_def)
qed

text \<open>The example table: two messages from one sender, one from the other.\<close>

theorem stats_top_senders_witness:
  "stats (Ready example_rows)
     (Inr \<lparr>total_messages = 3, senders_count = 2,
           messages_per_sender = [(''+919876543210'', 2), (''+911234567890'', 1)],
           first_message_ts = Some ''2025-01-15T09:00:00Z'',
           last_message_ts = Some ''2025-01-15T10:00:00Z''\<rparr>) \<and>
   sorted_wrt (\<lambda>a b. snd b \<le> snd a) [(''+919876543210'', 2::nat), (''+911234567890'', 1)] \<and>
   (2::nat) = min 10 (card (from_msisdn ` set example_rows))"
proof -
  have groups: "group_by_sender example_rows
                = [(''+919876543210'', 2), (''+911234567890'', 1)]"
    by (simp add: group_by_sender_def example_rows_def row_m1_def row_m2_def row_m3_def)
  have "order_by_c_desc_limit (group_by_sender example_rows) 10
          (take 10 [(''+919876543210'', 2), (''+911234567890'', 1)])"
    by (rule order_by_c_desc_limit.intros) (simp_all add: groups)
  then have ord: "order_by_c_desc_limit (group_by_sender example_rows) 10
          [(''+919876543210'', 2), (''+911234567890'', 1)]"
    by simp
  have fields: "length example_rows = 3"
    "length (remdups (map from_msisdn example_rows)) = 2"
    by (simp_all add: example_rows_def row_m1_def row_m2_def row_m3_def)
  have first: "min_ts example_rows = Some ''2025-01-15T09:00:00Z''"
    by (simp add: min_ts_def example_rows_def row_m1_def row_m2_def row_m3_def min_def)
  have last: "max_ts example_rows = Some ''2025-01-15T10:00:00Z''"
    by (simp add: max_ts_def example_rows_def row_m1_def row_m2_def row_m3_def max_def)
  have run: "stats (Ready example_rows)
     (Inr \<lparr>total_messages = 3, senders_count = 2,
           messages_per_sender = [(''+919876543210'', 2), (''+911234567890'', 1)],
           first_message_ts = Some ''2025-01-15T09:00:00Z'',
           last_message_ts = Some ''2025-01-15T10:00:00Z''\<rparr>)"
    using stats_ready [OF ord] by (simp only: fields first last)
  show ?thesis
    using stats_top_senders [of example_rows] run by fastforce
qed

section \<open>Properties of the webhook handler\<close>

lemma insert_message_result:
  "insert_message db mid frm to t tx ca = Inr (res, db') \<Longrightarrow>
   res = ''created'' \<or> res = ''duplicate''"
  by (auto simp add: insert_message_def split: sum.splits db_error.splits)

lemma inc_webhook_count:
  "dd_get k (webhook_requests (inc_webhook m outcome))
   = dd_get k (webhook_requests m) + (if k = outcome then 1 else 0)"
  by (simp add: inc_webhook_def dd_get_dd_inc)

lemma inc_webhook_others:
  "http_requests (inc_webhook m outcome) = http_requests m \<and>
   latency_buckets (inc_webhook m outcome) = latency_buckets m"
  by (simp add: inc_webhook_def)

text \<open>The handler, path by path, in the order of the source.\<close>

lemma webhook_no_signature:
  "x_signature = None \<or> x_signature = Some [] \<Longrightarrow>
   webhook hmac_hexdigest parse_raw secret utcnow db m raw x_signature
     = (Inr (HTTPException 401 ''invalid signature''), db, inc_webhook m ''invalid_signature'')"
  unfolding webhook_def by (cases x_signature) simp_all

lemma webhook_type_error:
  "x_signature = Some sig \<Longrightarrow> sig \<noteq> [] \<Longrightarrow>
   compare_digest (hmac_hexdigest secret raw) sig = Inl e \<Longrightarrow>
   webhook hmac_hexdigest parse_raw secret utcnow db m raw x_signature = (Inl e, db, m)"
  unfolding webhook_def by simp

lemma webhook_mismatch:
  "x_signature = Some sig \<Longrightarrow> sig \<noteq> [] \<Longrightarrow>
   compare_digest (hmac_hexdigest secret raw) sig = Inr False \<Longrightarrow>
   webhook hmac_hexdigest parse_raw secret utcnow db m raw x_signature
     = (Inr (HTTPException 401 ''invalid signature''), db, inc_webhook m ''invalid_signature'')"
  unfolding webhook_def by simp

lemma webhook_invalid_body:
  "x_signature = Some sig \<Longrightarrow> sig \<noteq> [] \<Longrightarrow>
   compare_digest (hmac_hexdigest secret raw) sig = Inr True \<Longrightarrow>
   parse_raw raw = Inl reason \<Longrightarrow>
   webhook hmac_hexdigest parse_raw secret utcnow db m raw x_signature
     = (Inr (HTTPException 422 reason), db, inc_webhook m ''validation_error'')"
  unfolding webhook_def by simp

lemma webhook_db_error:
  "x_signature = Some sig \<Longrightarrow> sig \<noteq> [] \<Longrightarrow>
   compare_digest (hmac_hexdigest secret raw) sig = Inr True \<Longrightarrow>
   parse_raw raw = Inr msg \<Longrightarrow>
   insert_message db (Some (w_message_id msg)) (Some (w_from msg)) (Some (w_to msg))
     (Some (py_replace ''+00:00'' ''Z'' (w_ts msg))) (w_text msg)
     (Some (py_replace ''+00:00'' ''Z'' utcnow)) = Inl e \<Longrightarrow>
   webhook hmac_hexdigest parse_raw secret utcnow db m raw x_signature
     = (Inl (DatabaseError e), db, m)"
  unfolding webhook_def Let_def by simp

lemma webhook_stored:
  "x_signature = Some sig \<Longrightarrow> sig \<noteq> [] \<Longrightarrow>
   compare_digest (hmac_hexdigest secret raw) sig = Inr True \<Longrightarrow>
   parse_raw raw = Inr msg \<Longrightarrow>
   insert_message db (Some (w_message_id msg)) (Some (w_from msg)) (Some (w_to msg))
     (Some (py_replace ''+00:00'' ''Z'' (w_ts msg))) (w_text msg)
     (Some (py_replace ''+00:00'' ''Z'' utcnow)) = Inr (res, db1) \<Longrightarrow>
   webhook hmac_hexdigest parse_raw secret utcnow db m raw x_signature
     = (Inr JSONResponse_ok, db1, inc_webhook m res)"
  unfolding webhook_def Let_def by simp

text \<open>
  Every call takes one of these paths: it answers 401, 422 or the JSON body, with the
  matching outcome counted once, or an exception leaves it with the database and the
  collector as they were.
\<close>

lemma webhook_paths:
  "(webhook hmac_hexdigest parse_raw secret utcnow db m raw x_signature
      = (Inr (HTTPException 401 ''invalid signature''), db,
         inc_webhook m ''invalid_signature'')) \<or>
   (\<exists>reason. webhook hmac_hexdigest parse_raw secret utcnow db m raw x_signature
      = (Inr (HTTPException 422 reason), db, inc_webhook m ''validation_error'')) \<or>
   (\<exists>res db1. (res = ''created'' \<or> res = ''duplicate'') \<and>
      webhook hmac_hexdigest parse_raw secret utcnow db m raw x_signature
      = (Inr JSONResponse_ok, db1, inc_webhook m res)) \<or>
   (\<exists>e. webhook hmac_hexdigest parse_raw secret utcnow db m raw x_signature = (Inl e, db, m))"
proof (cases "x_signature = None \<or> x_signature = Some []")
  case True
  then show ?thesis
    by (simp only: webhook_no_signature) simp
next
  case False
  then obtain sig where sig: "x_signature = Some sig" "sig \<noteq> []"
    by (cases x_signature) auto
  show ?thesis
  proof (cases "compare_digest (hmac_hexdigest secret raw) sig")
    case (Inl e)
    show ?thesis
      using sig Inl by (simp add: webhook_type_error)
  next
    case (Inr ok)
    show ?thesis
    proof (cases ok)
      case False
      with Inr have c: "compare_digest (hmac_hexdigest secret raw) sig = Inr False"
        by simp
      show ?thesis
        using sig c by (simp add: webhook_mismatch)
    next
      case True
      with Inr have c: "compare_digest (hmac_hexdigest secret raw) sig = Inr True"
        by simp
      show ?thesis
      proof (cases "parse_raw raw")
        case (Inl reason)
        show ?thesis
          using sig c Inl by (simp add: webhook_invalid_body)
      next
        case parsed: (Inr msg)
        show ?thesis
        proof (cases "insert_message db (Some (w_message_id msg)) (Some (w_from msg))
                        (Some (w_to msg)) (Some (py_replace ''+00:00'' ''Z'' (w_ts msg)))
                        (w_text msg) (Some (py_replace ''+00:00'' ''Z'' utcnow))")
          case (Inl e)
          show ?thesis
            using sig c parsed Inl by (simp add: webhook_db_error)
        next
          case (Inr rd)
          obtain res db1 where rd: "rd = (res, db1)"
            by (cases rd)
          have stored: "insert_message db (Some (w_message_id msg)) (Some (w_from msg))
                        (Some (w_to msg)) (Some (py_replace ''+00:00'' ''Z'' (w_ts msg)))
                        (w_text msg) (Some (py_replace ''+00:00'' ''Z'' utcnow)) = Inr (res, db1)"
            using Inr rd by simp
          have r: "res = ''created'' \<or> res = ''duplicate''"
            using stored by (rule insert_message_result)
          have "webhook hmac_hexdigest parse_raw secret utcnow db m raw x_signature
                  = (Inr JSONResponse_ok, db1, inc_webhook m res)"
            using sig c parsed stored by (simp add: webhook_stored)
          then show ?thesis
            using r by blast
        qed
      qed
    qed
  qed
qed

text \<open>
  Claim C2. Whenever the handler answers with an \<^verbatim>\<open>HTTPException\<close>, which is the 401 of
  an invalid signature or the 422 of a validation error, the database after the call is
  the database before it. A missing or empty signature header, or a digest that differs
  from the header, gives the 401; a body that fails validation after a matching digest
  gives the 422 with the reason; in both the table is untouched.
\<close>

theorem webhook_rejection_keeps_table:
  "(webhook hmac_hexdigest parse_raw secret utcnow db m raw x_signature
      = (Inr (HTTPException code detail), db', m') \<longrightarrow> db' = db) \<and>
   (x_signature = None \<or> x_signature = Some [] \<or>
    (\<exists>sig. x_signature = Some sig \<and>
           compare_digest (hmac_hexdigest secret raw) sig = Inr False) \<longrightarrow>
      webhook hmac_hexdigest parse_raw secret utcnow db m raw x_signature
        = (Inr (HTTPException 401 ''invalid signature''), db,
           inc_webhook m ''invalid_signature'')) \<and>
   (\<forall>sig reason. x_signature = Some sig \<and> sig \<noteq> [] \<and>
        compare_digest (hmac_hexdigest secret raw) sig = Inr True \<and>
        parse_raw raw = Inl reason \<longrightarrow>
      webhook hmac_hexdigest parse_raw secret utcnow db m raw x_signature
        = (Inr (HTTPException 422 reason), db, inc_webhook m ''validation_error''))"
proof (intro conjI impI allI)
  assume r: "webhook hmac_hexdigest parse_raw secret utcnow db m raw x_signature
      = (Inr (HTTPException code detail), db', m')"
  show "db' = db"
    using webhook_paths [of hmac_hexdigest parse_raw secret utcnow db m raw x_signature] r
    by (elim disjE exE conjE) simp_all
next
  assume a: "x_signature = None \<or> x_signature = Some [] \<or>
    (\<exists>sig. x_signature = Some sig \<and>
           compare_digest (hmac_hexdigest secret raw) sig = Inr False)"
  show "webhook hmac_hexdigest parse_raw secret utcnow db m raw x_signature
        = (Inr (HTTPException 401 ''invalid signature''), db,
           inc_webhook m ''invalid_signature'')"
  proof (cases "x_signature = None \<or> x_signature = Some []")
    case True
    then show ?thesis by (rule webhook_no_signature)
  next
    case False
    with a obtain sig where "x_signature = Some sig" "sig \<noteq> []"
      "compare_digest (hmac_hexdigest secret raw) sig = Inr False"
      by auto
    then show ?thesis by (simp add: webhook_mismatch)
  qed
next
  fix sig reason
  assume "x_signature = Some sig \<and> sig \<noteq> [] \<and>
        compare_digest (hmac_hexdigest secret raw) sig = Inr True \<and>
        parse_raw raw = Inl reason"
  then show "webhook hmac_hexdigest parse_raw secret utcnow db m raw x_signature
        = (Inr (HTTPException 422 reason), db, inc_webhook m ''validation_error'')"
    by (simp add: webhook_invalid_body)
qed

lemma outcome_recorded:
  "(\<forall>k. dd_get k (webhook_requests (inc_webhook m outcome))
          = dd_get k (webhook_requests m) + (if k = outcome then 1 else 0)) \<and>
   http_requests (inc_webhook m outcome) = http_requests m \<and>
   latency_buckets (inc_webhook m outcome) = latency_buckets m"
  by (simp add: inc_webhook_count inc_webhook_others)

text \<open>
  A validated message is stored when its \<^verbatim>\<open>message_id\<close> is new and reported as
  duplicate, with the table unchanged, when it is present.
\<close>

lemma insert_message_validated:
  assumes "insert_message db (Some k) (Some frm) (Some to) (Some t) tx (Some ca) = Inr (res, db1)"
  shows "\<exists>rows. db = Ready rows \<and>
     ((res = ''created'' \<and> Some k \<notin> set (map message_id rows) \<and>
       db1 = Ready (rows @ [\<lparr>message_id = Some k, from_msisdn = frm, to_msisdn = to, ts = t,
                              msg_text = tx, created_at = ca\<rparr>])) \<or>
      (res = ''duplicate'' \<and> Some k \<in> set (map message_id rows) \<and> db1 = db))"
proof (cases db)
  case (Failing msg)
  with assms show ?thesis
    by (simp add: insert_message_def db_insert_def)
next
  case (Ready rows)
  show ?thesis
  proof (cases "Some k \<in> set (map message_id rows)")
    case True
    then have "insert_message (Ready rows) (Some k) (Some frm) (Some to) (Some t) tx (Some ca)
                 = Inr (''duplicate'', Ready rows)"
      by (rule insert_message_duplicate)
    with assms Ready True show ?thesis
      by auto
  next
    case False
    then have "insert_message (Ready rows) (Some k) (Some frm) (Some to) (Some t) tx (Some ca)
                 = Inr (''created'',
                     Ready (rows @ [\<lparr>message_id = Some k, from_msisdn = frm, to_msisdn = to,
                                      ts = t, msg_text = tx, created_at = ca\<rparr>]))"
      by (simp add: insert_message_def db_insert_def execute_insert_fresh)
    with assms Ready False show ?thesis
      by simp
  qed
qed

text \<open>
  The answers of the handler, each with what the call did to the table and which
  outcome it counted.
\<close>

lemma webhook_answers:
  assumes "webhook hmac_hexdigest parse_raw secret utcnow db m raw x_signature
             = (Inr response, db', m')"
  shows
    "(response = HTTPException 401 ''invalid signature'' \<and> db' = db \<and>
      m' = inc_webhook m ''invalid_signature'') \<or>
     (\<exists>reason. response = HTTPException 422 reason \<and> db' = db \<and>
      m' = inc_webhook m ''validation_error'') \<or>
     (\<exists>msg rows r. response = JSONResponse_ok \<and> parse_raw raw = Inr msg \<and> db = Ready rows \<and>
        Some (w_message_id msg) \<notin> set (map message_id rows) \<and>
        message_id r = Some (w_message_id msg) \<and> db' = Ready (rows @ [r]) \<and>
        m' = inc_webhook m ''created'') \<or>
     (\<exists>msg rows. response = JSONResponse_ok \<and> parse_raw raw = Inr msg \<and> db = Ready rows \<and>
        Some (w_message_id msg) \<in> set (map message_id rows) \<and> db' = db \<and>
        m' = inc_webhook m ''duplicate'')"
proof (cases "x_signature = None \<or> x_signature = Some []")
  case True
  then have "webhook hmac_hexdigest parse_raw secret utcnow db m raw x_signature
     = (Inr (HTTPException 401 ''invalid signature''), db, inc_webhook m ''invalid_signature'')"
    by (rule webhook_no_signature)
  with assms show ?thesis
    by simp
next
  case False
  then obtain sig where sig: "x_signature = Some sig" "sig \<noteq> []"
    by (cases x_signature) auto
  show ?thesis
  proof (cases "compare_digest (hmac_hexdigest secret raw) sig")
    case (Inl e)
    with sig assms show ?thesis
      by (simp add: webhook_type_error)
  next
    case (Inr ok)
    show ?thesis
    proof (cases ok)
      case False
      with Inr have c: "compare_digest (hmac_hexdigest secret raw) sig = Inr False"
        by simp
      show ?thesis
        using sig c assms by (simp add: webhook_mismatch)
    next
      case True
      with Inr have c: "compare_digest (hmac_hexdigest secret raw) sig = Inr True"
        by simp
      show ?thesis
      proof (cases "parse_raw raw")
        case (Inl reason)
        have "webhook hmac_hexdigest parse_raw secret utcnow db m raw x_signature
                = (Inr (HTTPException 422 reason), db, inc_webhook m ''validation_error'')"
          using sig c Inl by (simp add: webhook_invalid_body)
        with assms have "response = HTTPException 422 reason \<and> db' = db \<and>
            m' = inc_webhook m ''validation_error''"
          by simp
        then show ?thesis
          by blast
      next
        case parsed: (Inr msg)
        show ?thesis
        proof (cases "insert_message db (Some (w_message_id msg)) (Some (w_from msg))
                        (Some (w_to msg)) (Some (py_replace ''+00:00'' ''Z'' (w_ts msg)))
                        (w_text msg) (Some (py_replace ''+00:00'' ''Z'' utcnow))")
          case (Inl e)
          show ?thesis
            using sig c parsed Inl assms by (simp add: webhook_db_error)
        next
          case (Inr rd)
          obtain res db1 where rd: "rd = (res, db1)"
            by (cases rd)
          have stored: "insert_message db (Some (w_message_id msg)) (Some (w_from msg))
                        (Some (w_to msg)) (Some (py_replace ''+00:00'' ''Z'' (w_ts msg)))
                        (w_text msg) (Some (py_replace ''+00:00'' ''Z'' utcnow)) = Inr (res, db1)"
            using Inr rd by simp
          have "webhook hmac_hexdigest parse_raw secret utcnow db m raw x_signature
                  = (Inr JSONResponse_ok, db1, inc_webhook m res)"
            using sig c parsed stored by (simp add: webhook_stored)
          with assms have ans: "response = JSONResponse_ok" "db' = db1" "m' = inc_webhook m res"
            by simp_all
          from insert_message_validated [OF stored]
          obtain rows where rows: "db = Ready rows"
            and alt: "(res = ''created'' \<and> Some (w_message_id msg) \<notin> set (map message_id rows) \<and>
               db1 = Ready (rows @ [\<lparr>message_id = Some (w_message_id msg),
                        from_msisdn = w_from msg, to_msisdn = w_to msg,
                        ts = py_replace ''+00:00'' ''Z'' (w_ts msg),
                        msg_text = w_text msg,
                        created_at = py_replace ''+00:00'' ''Z'' utcnow\<rparr>])) \<or>
              (res = ''duplicate'' \<and> Some (w_message_id msg) \<in> set (map message_id rows) \<and>
               db1 = db)"
            by blast
          from alt show ?thesis
          proof
            assume a: "res = ''created'' \<and> Some (w_message_id msg) \<notin> set (map message_id rows) \<and>
               db1 = Ready (rows @ [\<lparr>message_id = Some (w_message_id msg),
                        from_msisdn = w_from msg, to_msisdn = w_to msg,
                        ts = py_replace ''+00:00'' ''Z'' (w_ts msg),
                        msg_text = w_text msg,
                        created_at = py_replace ''+00:00'' ''Z'' utcnow\<rparr>])"
            define r where "r = \<lparr>message_id = Some (w_message_id msg),
                        from_msisdn = w_from msg, to_msisdn = w_to msg,
                        ts = py_replace ''+00:00'' ''Z'' (w_ts msg),
                        msg_text = w_text msg,
                        created_at = py_replace ''+00:00'' ''Z'' utcnow\<rparr>"
            have "response = JSONResponse_ok \<and> parse_raw raw = Inr msg \<and> db = Ready rows \<and>
                Some (w_message_id msg) \<notin> set (map message_id rows) \<and>
                message_id r = Some (w_message_id msg) \<and> db' = Ready (rows @ [r]) \<and>
                m' = inc_webhook m ''created''"
              using a ans parsed rows by (simp add: r_def)
            then have "\<exists>msg rows r. response = JSONResponse_ok \<and> parse_raw raw = Inr msg \<and>
                db = Ready rows \<and>
                Some (w_message_id msg) \<notin> set (map message_id rows) \<and>
                message_id r = Some (w_message_id msg) \<and> db' = Ready (rows @ [r]) \<and>
                m' = inc_webhook m ''created''"
              by (intro exI)
            then show ?thesis
              by (intro disjI2 disjI1)
          next
            assume a: "res = ''duplicate'' \<and> Some (w_message_id msg) \<in> set (map message_id rows) \<and>
               db1 = db"
            have "response = JSONResponse_ok \<and> parse_raw raw = Inr msg \<and> db = Ready rows \<and>
                Some (w_message_id msg) \<in> set (map message_id rows) \<and> db' = db \<and>
                m' = inc_webhook m ''duplicate''"
              using a ans parsed rows by simp
            then have "\<exists>msg rows. response = JSONResponse_ok \<and> parse_raw raw = Inr msg \<and>
                db = Ready rows \<and>
                Some (w_message_id msg) \<in> set (map message_id rows) \<and> db' = db \<and>
                m' = inc_webhook m ''duplicate''"
              by (intro exI)
            then show ?thesis
              by (intro disjI2)
          qed
        qed
      qed
    qed
  qed
qed

text \<open>
  Claim C7, as amended. Whenever the handler answers (with the JSON body or an
  \<^verbatim>\<open>HTTPException\<close>), exactly one of the four outcomes \<^verbatim>\<open>created\<close>, \<^verbatim>\<open>duplicate\<close>,
  \<^verbatim>\<open>invalid_signature\<close>, \<^verbatim>\<open>validation_error\<close> is recorded: the webhook counter of that
  label grows by one, every other webhook counter and the two other metric families are
  unchanged. The label is \<^verbatim>\<open>invalid_signature\<close> exactly for the 401 and
  \<^verbatim>\<open>validation_error\<close> exactly for the 422, so rejected requests are counted like
  accepted ones. It is \<^verbatim>\<open>created\<close> exactly when the JSON body is returned and the
  message, whose \<^verbatim>\<open>message_id\<close> was not in the table, has been appended to it as one new
  row; it is \<^verbatim>\<open>duplicate\<close> exactly when the JSON body is returned, the \<^verbatim>\<open>message_id\<close> was
  in the table already and the table is unchanged.
\<close>

theorem webhook_outcome_counted:
  assumes "webhook hmac_hexdigest parse_raw secret utcnow db m raw x_signature
             = (Inr response, db', m')"
  shows "\<exists>outcome.
     (outcome = ''created'' \<or> outcome = ''duplicate'' \<or>
      outcome = ''invalid_signature'' \<or> outcome = ''validation_error'') \<and>
     m' = inc_webhook m outcome \<and>
     (\<forall>k. dd_get k (webhook_requests m')
          = dd_get k (webhook_requests m) + (if k = outcome then 1 else 0)) \<and>
     http_requests m' = http_requests m \<and> latency_buckets m' = latency_buckets m \<and>
     (outcome = ''invalid_signature'') = (response = HTTPException 401 ''invalid signature'') \<and>
     (outcome = ''validation_error'') = (\<exists>reason. response = HTTPException 422 reason) \<and>
     (outcome = ''created'' \<or> outcome = ''duplicate'') = (response = JSONResponse_ok) \<and>
     (outcome = ''created'') =
       (response = JSONResponse_ok \<and>
        (\<exists>msg rows r. parse_raw raw = Inr msg \<and> db = Ready rows \<and>
           Some (w_message_id msg) \<notin> set (map message_id rows) \<and>
           message_id r = Some (w_message_id msg) \<and> db' = Ready (rows @ [r]))) \<and>
     (outcome = ''duplicate'') =
       (response = JSONResponse_ok \<and>
        (\<exists>msg rows. parse_raw raw = Inr msg \<and> db = Ready rows \<and>
           Some (w_message_id msg) \<in> set (map message_id rows) \<and> db' = db))"
  using webhook_answers [OF assms]
proof (elim disjE exE conjE)
  assume a: "response = HTTPException 401 ''invalid signature''" "db' = db"
    "m' = inc_webhook m ''invalid_signature''"
  show ?thesis
    using a outcome_recorded [of m "''invalid_signature''"]
    by (intro exI [of _ "''invalid_signature''"]) simp
next
  fix reason
  assume a: "response = HTTPException 422 reason" "db' = db"
    "m' = inc_webhook m ''validation_error''"
  show ?thesis
    using a outcome_recorded [of m "''validation_error''"]
    by (intro exI [of _ "''validation_error''"]) simp
next
  fix msg rows r
  assume a: "response = JSONResponse_ok" "parse_raw raw = Inr msg" "db = Ready rows"
    "Some (w_message_id msg) \<notin> set (map message_id rows)"
    "message_id r = Some (w_message_id msg)" "db' = Ready (rows @ [r])"
    "m' = inc_webhook m ''created''"
  have stored: "\<exists>msg rows r. parse_raw raw = Inr msg \<and> db = Ready rows \<and>
           Some (w_message_id msg) \<notin> set (map message_id rows) \<and>
           message_id r = Some (w_message_id msg) \<and> db' = Ready (rows @ [r])"
    using a by blast
  have changed: "db' \<noteq> db"
    using a by simp
  show ?thesis
    using a(1,7) stored changed outcome_recorded [of m "''created''"]
    by (intro exI [of _ "''created''"]) simp
next
  fix msg rows
  assume a: "response = JSONResponse_ok" "parse_raw raw = Inr msg" "db = Ready rows"
    "Some (w_message_id msg) \<in> set (map message_id rows)" "db' = db"
    "m' = inc_webhook m ''duplicate''"
  have present: "\<exists>msg rows. parse_raw raw = Inr msg \<and> db = Ready rows \<and>
           Some (w_message_id msg) \<in> set (map message_id rows) \<and> db' = db"
    using a by blast
  have fresh: "\<not> (\<exists>msg rows r. parse_raw raw = Inr msg \<and> db = Ready rows \<and>
           Some (w_message_id msg) \<notin> set (map message_id rows) \<and>
           message_id r = Some (w_message_id msg) \<and> db' = Ready (rows @ [r]))"
    using a by auto
  show ?thesis
    using a(1,6) present fresh outcome_recorded [of m "''duplicate''"]
    by (intro exI [of _ "''duplicate''"]) simp
qed

subsection \<open>Concrete requests\<close>

lemma example_digest_matches:
  "compare_digest (fixed_hexdigest ''testsecret'' example_body) ''5f2b'' = Inr True"
  unfolding fixed_hexdigest_def compare_digest_def is_ascii_def by code_simp

lemma example_digest_differs:
  "compare_digest (fixed_hexdigest ''testsecret'' example_body) ''bad'' = Inr False"
  unfolding fixed_hexdigest_def compare_digest_def is_ascii_def by code_simp

lemma example_replace:
  "py_replace ''+00:00'' ''Z'' ''2025-01-15T10:00:00+00:00'' = ''2025-01-15T10:00:00Z''"
  "py_replace ''+00:00'' ''Z'' ''2025-01-15T10:00:01+00:00'' = ''2025-01-15T10:00:01Z''"
  by code_simp+

text \<open>
  A request whose signature header differs from the digest is answered 401, and a
  correctly signed request whose body is rejected is answered 422; the table is
  unchanged in both.
\<close>

theorem webhook_rejection_keeps_table_witness:
  "compare_digest (fixed_hexdigest ''testsecret'' example_body) ''bad'' = Inr False \<and>
   webhook fixed_hexdigest accept_all ''testsecret'' ''2025-01-15T10:00:01+00:00''
       (Ready example_rows) Metrics example_body (Some ''bad'')
     = (Inr (HTTPException 401 ''invalid signature''), Ready example_rows,
        inc_webhook Metrics ''invalid_signature'') \<and>
   compare_digest (fixed_hexdigest ''testsecret'' example_body) ''5f2b'' = Inr True \<and>
   reject_all example_body = Inl ''field required'' \<and>
   webhook fixed_hexdigest reject_all ''testsecret'' ''2025-01-15T10:00:01+00:00''
       (Ready example_rows) Metrics example_body (Some ''5f2b'')
     = (Inr (HTTPException 422 ''field required''), Ready example_rows,
        inc_webhook Metrics ''validation_error'')"
proof -
  have "\<exists>sig. Some ''bad'' = Some sig \<and>
          compare_digest (fixed_hexdigest ''testsecret'' example_body) sig = Inr False"
    using example_digest_differs by simp
  then have unsigned:
    "webhook fixed_hexdigest accept_all ''testsecret'' ''2025-01-15T10:00:01+00:00''
       (Ready example_rows) Metrics example_body (Some ''bad'')
     = (Inr (HTTPException 401 ''invalid signature''), Ready example_rows,
        inc_webhook Metrics ''invalid_signature'')"
    using webhook_rejection_keeps_table [where hmac_hexdigest = fixed_hexdigest
        and parse_raw = accept_all and secret = "''testsecret''"
        and utcnow = "''2025-01-15T10:00:01+00:00''" and db = "Ready example_rows"
        and m = Metrics and raw = example_body and x_signature = "Some ''bad''"]
    by simp
  have rejected: "reject_all example_body = Inl ''field required''"
    by (simp add: reject_all_def)
  have invalid:
    "webhook fixed_hexdigest reject_all ''testsecret'' ''2025-01-15T10:00:01+00:00''
       (Ready example_rows) Metrics example_body (Some ''5f2b'')
     = (Inr (HTTPException 422 ''field required''), Ready example_rows,
        inc_webhook Metrics ''validation_error'')"
    using example_digest_matches rejected
      webhook_rejection_keeps_table [where hmac_hexdigest = fixed_hexdigest
        and parse_raw = reject_all and secret = "''testsecret''"
        and utcnow = "''2025-01-15T10:00:01+00:00''" and db = "Ready example_rows"
        and m = Metrics and raw = example_body and x_signature = "Some ''5f2b''"]
    by simp
  show ?thesis
    using example_digest_differs example_digest_matches unsigned rejected invalid
    by simp
qed

text \<open>
  Claim C7 as stated counts an outcome for every request. A correctly signed, valid
  request that arrives while the database cannot run the insert ends in the driver's
  \<^verbatim>\<open>OperationalError\<close>, which \<^verbatim>\<open>insert_message\<close> does not catch: the handler is left
  before \<^verbatim>\<open>metrics.inc_webhook\<close> and no webhook counter changes.
\<close>

theorem webhook_outcome_counted_counterexample:
  "webhook fixed_hexdigest accept_all ''testsecret'' ''2025-01-15T10:00:01+00:00''
       (Failing ''database is locked'') Metrics example_body (Some ''5f2b'')
     = (Inl (DatabaseError (OperationalError ''database is locked'')),
        Failing ''database is locked'', Metrics) \<and>
   webhook_requests Metrics = []"
proof
  have ins: "insert_message (Failing ''database is locked'')
               (Some (w_message_id example_message)) (Some (w_from example_message))
               (Some (w_to example_message))
               (Some (py_replace ''+00:00'' ''Z'' (w_ts example_message)))
               (w_text example_message)
               (Some (py_replace ''+00:00'' ''Z'' ''2025-01-15T10:00:01+00:00''))
             = Inl (OperationalError ''database is locked'')"
    by (simp add: insert_message_def db_insert_def)
  have parsed: "accept_all example_body = Inr example_message"
    by (simp add: accept_all_def)
  have sig: "Some ''5f2b'' = Some ''5f2b''" "''5f2b'' \<noteq> []"
    by simp_all
  show "webhook fixed_hexdigest accept_all ''testsecret'' ''2025-01-15T10:00:01+00:00''
       (Failing ''database is locked'') Metrics example_body (Some ''5f2b'')
     = (Inl (DatabaseError (OperationalError ''database is locked'')),
        Failing ''database is locked'', Metrics)"
    using sig example_digest_matches parsed ins by (simp add: webhook_db_error)
  show "webhook_requests Metrics = []"
    by (simp add: Metrics_def)
qed

text \<open>
  Three deliveries in a row, with the collector as each one leaves it: the first
  delivery of \<^verbatim>\<open>m1\<close> to the empty table is counted as \<^verbatim>\<open>created\<close>, its second delivery as
  \<^verbatim>\<open>duplicate\<close> with the table unchanged, and a delivery with a wrong signature as
  \<^verbatim>\<open>invalid_signature\<close>.
\<close>

theorem webhook_outcome_counted_witness:
  "webhook fixed_hexdigest accept_all ''testsecret'' ''2025-01-15T10:00:01+00:00''
       (Ready []) Metrics example_body (Some ''5f2b'')
     = (Inr JSONResponse_ok,
        Ready [\<lparr>message_id = Some ''m1'', from_msisdn = ''+919876543210'',
                to_msisdn = ''+14155550100'', ts = ''2025-01-15T10:00:00Z'',
                msg_text = Some ''Hello'', created_at = ''2025-01-15T10:00:01Z''\<rparr>],
        \<lparr>http_requests = [], webhook_requests = [(''created'', 1)], latency_buckets = []\<rparr>) \<and>
   webhook fixed_hexdigest accept_all ''testsecret'' ''2025-01-15T10:00:07+00:00''
       (Ready [\<lparr>message_id = Some ''m1'', from_msisdn = ''+919876543210'',
                to_msisdn = ''+14155550100'', ts = ''2025-01-15T10:00:00Z'',
                msg_text = Some ''Hello'', created_at = ''2025-01-15T10:00:01Z''\<rparr>])
       \<lparr>http_requests = [], webhook_requests = [(''created'', 1)], latency_buckets = []\<rparr>
       example_body (Some ''5f2b'')
     = (Inr JSONResponse_ok,
        Ready [\<lparr>message_id = Some ''m1'', from_msisdn = ''+919876543210'',
                to_msisdn = ''+14155550100'', ts = ''2025-01-15T10:00:00Z'',
                msg_text = Some ''Hello'', created_at = ''2025-01-15T10:00:01Z''\<rparr>],
        \<lparr>http_requests = [], webhook_requests = [(''created'', 1), (''duplicate'', 1)],
         latency_buckets = []\<rparr>) \<and>
   webhook fixed_hexdigest accept_all ''testsecret'' ''2025-01-15T10:00:09+00:00''
       (Ready [\<lparr>message_id = Some ''m1'', from_msisdn = ''+919876543210'',
                to_msisdn = ''+14155550100'', ts = ''2025-01-15T10:00:00Z'',
                msg_text = Some ''Hello'', created_at = ''2025-01-15T10:00:01Z''\<rparr>])
       \<lparr>http_requests = [], webhook_requests = [(''created'', 1), (''duplicate'', 1)],
        latency_buckets = []\<rparr>
       example_body (Some ''bad'')
     = (Inr (HTTPException 401 ''invalid signature''),
        Ready [\<lparr>message_id = Some ''m1'', from_msisdn = ''+919876543210'',
                to_msisdn = ''+14155550100'', ts = ''2025-01-15T10:00:00Z'',
                msg_text = Some ''Hello'', created_at = ''2025-01-15T10:00:01Z''\<rparr>],
        \<lparr>http_requests = [],
         webhook_requests = [(''created'', 1), (''duplicate'', 1), (''invalid_signature'', 1)],
         latency_buckets = []\<rparr>) \<and>
   (\<exists>outcome. outcome = ''duplicate'' \<and>
      (\<forall>k. dd_get k [(''created'', 1), (''duplicate'', 1)]
           = dd_get k [(''created'', 1)] + (if k = outcome then 1 else 0)))"
proof -
  define stored where
    "stored = \<lparr>message_id = Some ''m1'', from_msisdn = ''+919876543210'',
                to_msisdn = ''+14155550100'', ts = ''2025-01-15T10:00:00Z'',
                msg_text = Some ''Hello'', created_at = ''2025-01-15T10:00:01Z''\<rparr>"
  define m1 where
    "m1 = \<lparr>http_requests = [], webhook_requests = [(''created'', 1::nat)],
           latency_buckets = []\<rparr>"
  define m2 where
    "m2 = \<lparr>http_requests = [], webhook_requests = [(''created'', 1::nat), (''duplicate'', 1)],
           latency_buckets = []\<rparr>"
  define m3 where
    "m3 = \<lparr>http_requests = [],
           webhook_requests = [(''created'', 1::nat), (''duplicate'', 1), (''invalid_signature'', 1)],
           latency_buckets = []\<rparr>"
  have parsed: "accept_all example_body = Inr example_message"
    by (simp add: accept_all_def)
  have sig: "Some ''5f2b'' = Some ''5f2b''" "''5f2b'' \<noteq> []"
    by simp_all
  have c1: "inc_webhook Metrics ''created'' = m1"
    by (simp add: inc_webhook_def Metrics_def m1_def)
  have c2: "inc_webhook m1 ''duplicate'' = m2"
    by (simp add: inc_webhook_def m1_def m2_def)
  have c3: "inc_webhook m2 ''invalid_signature'' = m3"
    by (simp add: inc_webhook_def m2_def m3_def)
  have ins1: "insert_message (Ready [])
               (Some (w_message_id example_message)) (Some (w_from example_message))
               (Some (w_to example_message))
               (Some (py_replace ''+00:00'' ''Z'' (w_ts example_message)))
               (w_text example_message)
               (Some (py_replace ''+00:00'' ''Z'' ''2025-01-15T10:00:01+00:00''))
             = Inr (''created'', Ready [stored])"
    by (simp add: insert_message_def db_insert_def execute_insert_def example_message_def
          example_replace stored_def)
  have known: "Some (w_message_id example_message) \<in> set (map message_id [stored])"
    by (simp add: example_message_def stored_def)
  have ins2: "insert_message (Ready [stored])
               (Some (w_message_id example_message)) (Some (w_from example_message))
               (Some (w_to example_message))
               (Some (py_replace ''+00:00'' ''Z'' (w_ts example_message)))
               (w_text example_message)
               (Some (py_replace ''+00:00'' ''Z'' ''2025-01-15T10:00:07+00:00''))
             = Inr (''duplicate'', Ready [stored])"
    using known by (rule insert_message_duplicate)
  have run1: "webhook fixed_hexdigest accept_all ''testsecret'' ''2025-01-15T10:00:01+00:00''
       (Ready []) Metrics example_body (Some ''5f2b'')
     = (Inr JSONResponse_ok, Ready [stored], m1)"
    using sig example_digest_matches parsed ins1 by (simp add: webhook_stored c1)
  have run2: "webhook fixed_hexdigest accept_all ''testsecret'' ''2025-01-15T10:00:07+00:00''
       (Ready [stored]) m1 example_body (Some ''5f2b'')
     = (Inr JSONResponse_ok, Ready [stored], m2)"
    using sig example_digest_matches parsed ins2 by (simp add: webhook_stored c2)
  have bad: "Some ''bad'' = Some ''bad''" "''bad'' \<noteq> []"
    by simp_all
  have run3: "webhook fixed_hexdigest accept_all ''testsecret'' ''2025-01-15T10:00:09+00:00''
       (Ready [stored]) m2 example_body (Some ''bad'')
     = (Inr (HTTPException 401 ''invalid signature''), Ready [stored], m3)"
    using bad example_digest_differs by (simp add: webhook_mismatch c3)
  from webhook_outcome_counted [OF run2]
  obtain outcome where
    label: "(outcome = ''duplicate'') =
       (JSONResponse_ok = JSONResponse_ok \<and>
        (\<exists>msg rows. accept_all example_body = Inr msg \<and> Ready [stored] = Ready rows \<and>
           Some (w_message_id msg) \<in> set (map message_id rows) \<and>
           Ready [stored] = Ready [stored]))"
    and counted: "\<forall>k. dd_get k (webhook_requests m2)
          = dd_get k (webhook_requests m1) + (if k = outcome then 1 else 0)"
    by (elim exE conjE)
  have "accept_all example_body = Inr example_message \<and> Ready [stored] = Ready [stored] \<and>
        Some (w_message_id example_message) \<in> set (map message_id [stored]) \<and>
        Ready [stored] = Ready [stored]"
    using parsed known by simp
  then have "\<exists>msg rows. accept_all example_body = Inr msg \<and> Ready [stored] = Ready rows \<and>
           Some (w_message_id msg) \<in> set (map message_id rows) \<and>
           Ready [stored] = Ready [stored]"
    by (intro exI)
  with label have "outcome = ''duplicate''"
    by simp
  with counted have derived: "\<exists>outcome. outcome = ''duplicate'' \<and>
      (\<forall>k. dd_get k [(''created'', 1), (''duplicate'', 1)]
           = dd_get k [(''created'', 1)] + (if k = outcome then 1 else 0))"
    by (simp add: m1_def m2_def)
  show ?thesis
    using run1 run2 run3 derived unfolding stored_def m1_def m2_def m3_def
    by (intro conjI) assumption+
qed

end
